theory Spec2Isabelle
  imports Main "HOL-Library.AList"
begin

section \<open>JavaScript strings and values\<close>

text \<open>
  A JavaScript string is a sequence of UTF-16 code units. The model covers the strings whose
  code units lie in U+0000..U+00FF: one \<^typ>\<open>char\<close> is one code unit, read as Latin-1, so
  \<^term>\<open>CHR 0xED\<close> is the letter i with an acute accent. Numbers are integers (prices and
  costs in whole currency units); floating point is outside the model.
\<close>

fun startsWith :: "string \<Rightarrow> string \<Rightarrow> bool" where
  "startsWith hay [] = True"
| "startsWith [] (n # ns) = False"
| "startsWith (h # hs) (n # ns) = (h = n \<and> startsWith hs ns)"

text \<open>\<open>hay.includes(needle)\<close>: the needle occurs as a contiguous run.\<close>

fun includesStr :: "string \<Rightarrow> string \<Rightarrow> bool" where
  "includesStr [] needle = (needle = [])"
| "includesStr (h # hs) needle = (startsWith (h # hs) needle \<or> includesStr hs needle)"

definition endsWith :: "string \<Rightarrow> string \<Rightarrow> bool" where
  "endsWith hay suffix = startsWith (rev hay) (rev suffix)"

text \<open>\<open>String.prototype.trim\<close>: the white space and line terminators of Latin-1.\<close>

definition isWhiteSpace :: "char \<Rightarrow> bool" where
  "isWhiteSpace c =
     (c \<in> set [CHR 0x09, CHR 0x0A, CHR 0x0B, CHR 0x0C, CHR 0x0D, CHR 0x20, CHR 0xA0])"

definition trim :: "string \<Rightarrow> string" where
  "trim s = rev (dropWhile isWhiteSpace (rev (dropWhile isWhiteSpace s)))"

text \<open>\<open>sender.split('@')[0]\<close>: everything before the first \<open>@\<close>.\<close>

definition beforeAt :: "string \<Rightarrow> string" where
  "beforeAt s = takeWhile (\<lambda>c. c \<noteq> CHR ''@'') s"

text \<open>
  \<open>toLowerCase\<close> on Latin-1: the letters A..Z and U+00C0..U+00DE (without the
  multiplication sign U+00D7) move to their lower-case partner; everything else stays.
\<close>

definition lowerPairs :: "(char \<times> char) list" where
  "lowerPairs =
     zip (''ABCDEFGHIJKLMNOPQRSTUVWXYZ'' @
          [CHR 0xC0, CHR 0xC1, CHR 0xC2, CHR 0xC3, CHR 0xC4, CHR 0xC5, CHR 0xC6, CHR 0xC7,
           CHR 0xC8, CHR 0xC9, CHR 0xCA, CHR 0xCB, CHR 0xCC, CHR 0xCD, CHR 0xCE, CHR 0xCF,
           CHR 0xD0, CHR 0xD1, CHR 0xD2, CHR 0xD3, CHR 0xD4, CHR 0xD5, CHR 0xD6,
           CHR 0xD8, CHR 0xD9, CHR 0xDA, CHR 0xDB, CHR 0xDC, CHR 0xDD, CHR 0xDE])
         (''abcdefghijklmnopqrstuvwxyz'' @
          [CHR 0xE0, CHR 0xE1, CHR 0xE2, CHR 0xE3, CHR 0xE4, CHR 0xE5, CHR 0xE6, CHR 0xE7,
           CHR 0xE8, CHR 0xE9, CHR 0xEA, CHR 0xEB, CHR 0xEC, CHR 0xED, CHR 0xEE, CHR 0xEF,
           CHR 0xF0, CHR 0xF1, CHR 0xF2, CHR 0xF3, CHR 0xF4, CHR 0xF5, CHR 0xF6,
           CHR 0xF8, CHR 0xF9, CHR 0xFA, CHR 0xFB, CHR 0xFC, CHR 0xFD, CHR 0xFE])"

definition toLowerCase :: "string \<Rightarrow> string" where
  "toLowerCase s = map (\<lambda>c. case map_of lowerPairs c of Some d \<Rightarrow> d | None \<Rightarrow> c) s"

text \<open>
  \<open>normalize("NFD")\<close> followed by the removal of every code unit in U+0300..U+036F, on
  Latin-1: canonical decomposition splits an accented letter into its base letter and
  combining marks, all of them in that range, and the replacement deletes the marks. What
  is left is the base letter. Letters without a canonical decomposition (U+00C6, U+00D0,
  U+00D8, U+00DE, U+00DF and their lower-case partners) stay.
\<close>

definition basePairs :: "(char \<times> char) list" where
  "basePairs =
     zip [CHR 0xC0, CHR 0xC1, CHR 0xC2, CHR 0xC3, CHR 0xC4, CHR 0xC5, CHR 0xC7,
          CHR 0xC8, CHR 0xC9, CHR 0xCA, CHR 0xCB, CHR 0xCC, CHR 0xCD, CHR 0xCE, CHR 0xCF,
          CHR 0xD1, CHR 0xD2, CHR 0xD3, CHR 0xD4, CHR 0xD5, CHR 0xD6,
          CHR 0xD9, CHR 0xDA, CHR 0xDB, CHR 0xDC, CHR 0xDD,
          CHR 0xE0, CHR 0xE1, CHR 0xE2, CHR 0xE3, CHR 0xE4, CHR 0xE5, CHR 0xE7,
          CHR 0xE8, CHR 0xE9, CHR 0xEA, CHR 0xEB, CHR 0xEC, CHR 0xED, CHR 0xEE, CHR 0xEF,
          CHR 0xF1, CHR 0xF2, CHR 0xF3, CHR 0xF4, CHR 0xF5, CHR 0xF6,
          CHR 0xF9, CHR 0xFA, CHR 0xFB, CHR 0xFC, CHR 0xFD, CHR 0xFF]
         (''AAAAAACEEEEIIIINOOOOOUUUUY'' @ ''aaaaaaceeeeiiiinooooouuuuyy'')"

definition stripMarks :: "string \<Rightarrow> string" where
  "stripMarks s = map (\<lambda>c. case map_of basePairs c of Some d \<Rightarrow> d | None \<Rightarrow> c) s"

text \<open>
  \<open>normalizeText\<close> of \<open>plugins/utils\<close>. Every caller passes a string, so the optional
  chaining and the final \<open>|| ''\<close> change nothing.
\<close>

definition normalizeText :: "string \<Rightarrow> string" where
  "normalizeText text = stripMarks (toLowerCase text)"

text \<open>A property that may be missing (\<open>undefined\<close>), \<open>null\<close>, or hold a value.\<close>

datatype 'a nullable = Undefined | Null | Val 'a

text \<open>\<open>x ?? null\<close>.\<close>

fun orNull :: "'a nullable \<Rightarrow> 'a option" where
  "orNull (Val v) = Some v"
| "orNull Undefined = None"
| "orNull Null = None"

text \<open>Truthiness of an optional string and of an optional number.\<close>

fun truthyStr :: "string option \<Rightarrow> bool" where
  "truthyStr None = False"
| "truthyStr (Some s) = (s \<noteq> [])"

fun truthyNum :: "int option \<Rightarrow> bool" where
  "truthyNum None = False"
| "truthyNum (Some n) = (n \<noteq> 0)"

text \<open>A product identifier is a string or a number.\<close>

datatype idval = IdStr string | IdNum int

fun truthyId :: "idval option \<Rightarrow> bool" where
  "truthyId None = False"
| "truthyId (Some (IdStr s)) = (s \<noteq> [])"
| "truthyId (Some (IdNum n)) = (n \<noteq> 0)"

definition digitChar :: "nat \<Rightarrow> char" where
  "digitChar d = ''0123456789'' ! d"

function showNat :: "nat \<Rightarrow> string" where
  "showNat n = (if n < 10 then [digitChar n] else showNat (n div 10) @ [digitChar (n mod 10)])"
  by pat_completeness auto
termination
  by (relation "measure id") auto

definition showInt :: "int \<Rightarrow> string" where
  "showInt i = (if i < 0 then CHR ''-'' # showNat (nat (- i)) else showNat (nat i))"

text \<open>\<open>String(x)\<close> for a string property and for an identifier.\<close>

fun StringOf :: "string nullable \<Rightarrow> string" where
  "StringOf Undefined = ''undefined''"
| "StringOf Null = ''null''"
| "StringOf (Val s) = s"

fun StringOfId :: "idval nullable \<Rightarrow> string" where
  "StringOfId Undefined = ''undefined''"
| "StringOfId Null = ''null''"
| "StringOfId (Val (IdStr s)) = s"
| "StringOfId (Val (IdNum n)) = showInt n"

section \<open>Catalog lookup\<close>

text \<open>\<open>ProductDataType\<close> of \<open>handlers/message.ts\<close>; \<open>Descripcion\<close> carries an accent there.\<close>

record ProductDataType =
  ID :: "idval nullable"
  Nombre :: "string nullable"
  Descripcion :: "string nullable"
  Precio :: "int nullable"
  Stock :: "int nullable"
  ImagenURL :: "string nullable"

text \<open>The predicate handed to \<open>data.find\<close> in the product stage.\<close>

definition productMatches :: "string \<Rightarrow> ProductDataType \<Rightarrow> bool" where
  "productMatches response item =
     (includesStr (normalizeText (StringOf (Nombre item))) response \<or>
      includesStr (normalizeText (StringOf (Descripcion item))) response \<or>
      includesStr (normalizeText (StringOfId (ID item))) response)"

text \<open>
  \<open>const response = normalizeText(message.content); data.find(item => ...)\<close>:
  the first entry of the list that satisfies the predicate.
\<close>

definition findProduct :: "ProductDataType list \<Rightarrow> string \<Rightarrow> ProductDataType option" where
  "findProduct data content' = List.find (productMatches (normalizeText content')) data"

text \<open>
  The lookup as the specification words it, for comparison: name, description and identifier
  are three passes in that priority, and within a pass the first entry in list order wins.
\<close>

definition findByFieldPriority :: "ProductDataType list \<Rightarrow> string \<Rightarrow> ProductDataType option" where
  "findByFieldPriority data query =
     (let q = normalizeText query in
      case List.find (\<lambda>item. includesStr (normalizeText (StringOf (Nombre item))) q) data of
        Some p \<Rightarrow> Some p
      | None \<Rightarrow>
         (case List.find (\<lambda>item. includesStr (normalizeText (StringOf (Descripcion item))) q) data of
            Some p \<Rightarrow> Some p
          | None \<Rightarrow> List.find (\<lambda>item. includesStr (normalizeText (StringOfId (ID item))) q) data))"

section \<open>Data of the conversation engine and of the ledger\<close>

type_synonym jid = string

text \<open>
  A JSON file as the code sees it through \<open>fs.existsSync\<close>, \<open>fs.readFileSync\<close> and
  \<open>JSON.parse\<close>: not there, there but unreadable or not JSON (the read or the parse throws),
  or there with the parsed value.
\<close>

datatype 'a jsonFile = Absent | Malformed | Content 'a

text \<open>
  \<open>sessions.json\<close>: an object from sender to \<open>{ lastTime }\<close>. The association list keeps
  the insertion order that \<open>Object.entries\<close> walks.
\<close>

record UserData =
  lastTime :: "int option"

type_synonym sessionMap = "(jid \<times> UserData) list"

datatype FormStage =
  basicName | basicId | basicConfirmation | addressBarrio | addressAddress | addressCity
  | finalConfirmation

record FormState =
  stage :: FormStage
  name :: "string option"
  idNumber :: "string option"
  address :: "string option"
  barrio :: "string option"
  city :: "string option"
  deliveryCost :: "int option"
  mapImagePath :: "string option"

text \<open>\<open>AwaitingType\<close>: \<open>boolean | FormState\<close>.\<close>

datatype awaiting = ABool bool | AForm FormState

record FormDataItem =
  fd_name :: "string option"
  fd_idNumber :: "string option"
  fd_address :: "string option"
  fd_barrio :: "string option"
  fd_city :: "string option"
  fd_deliveryCost :: "int option"

datatype StageType = stage_confirmation | stage_payment | stage_product | stage_new

datatype Status = st_new | st_processing | st_completed | st_cancelled

record Customer =
  cust_name :: string
  cust_idNumber :: string
  cust_phone :: string
  cust_address :: string
  cust_barrio :: string
  cust_city :: string

record OrderProduct =
  prod_id :: "idval option"
  prod_name :: "string option"
  prod_description :: "string option"
  prod_price :: "int option"
  prod_imageUrl :: "string option"

record Payment =
  pay_total :: int
  pay_productPrice :: int
  pay_deliveryCost :: int
  pay_imagePath :: "string option"

record Order =
  order_id :: string
  timestamp :: int
  status :: Status
  customer :: Customer
  product :: OrderProduct
  payment :: Payment
  order_notes :: "string option"
  attendedBy :: "string option"
  attendedTimestamp :: "int option"

text \<open>\<open>Omit<Order, 'id' | 'timestamp' | 'status'>\<close>, the argument of \<open>createOrder\<close>.\<close>

record OrderData =
  od_customer :: Customer
  od_product :: OrderProduct
  od_payment :: Payment
  od_notes :: "string option"
  od_attendedBy :: "string option"
  od_attendedTimestamp :: "int option"

record OrderSearchCriteria =
  c_status :: "Status option"
  c_fromDate :: "int option"
  c_toDate :: "int option"
  c_customerId :: "string option"
  c_customerName :: "string option"
  c_customerPhone :: "string option"
  c_productId :: "idval option"
  c_productName :: "string option"
  c_minTotal :: "int option"
  c_maxTotal :: "int option"
  c_attendedBy :: "string option"

text \<open>The inbound message, as far as the handler reads it.\<close>

record ImageMessage =
  jpegThumbnail :: "nat list option"

record FormattedMessage =
  fromMe :: bool
  remoteJid :: jid
  content :: "string option"
  pushName :: "string option"
  imageMessage :: "ImageMessage option"

text \<open>
  What the bot sends. One constructor for each message text or medium of the source, with the
  values the text is built from.
\<close>

datatype outmsg =
    AskIdNumber
  | ConfirmBasicInfo "string option" "string option"
  | AskBarrio
  | RestartAskName
  | OnlySiNo
  | AskAddress
  | AskCity
  | LocationImage
  | FinalSummary FormState "(string nullable \<times> int option \<times> int \<times> int) option"
  | DeliveryCostError
  | PaymentInstructions "int option" "int option" int
  | TryAgainAskProduct
  | AskName
  | AskProductAgain
  | OnlySiNoRetry
  | ProductCard ProductDataType
  | ProductImage
  | ConfirmProductQuestion
  | ProductNotFound string
  | ProductSearchError
  | OrderDetails FormDataItem ProductDataType string
  | RelayedReceipt
  | ReceiptThumbnail
  | ReceiptForwardFailed
  | ReceiptNotProcessed
  | ThanksForPurchase
  | PaymentProblem
  | Welcome "string option"
  | CatalogDocument
  | AskProduct
  | SessionClosed

text \<open>
  The state the code keeps: the five global dictionaries of the handler and its flag, the
  \<open>sessions\<close> variable of \<open>plugins/utils\<close>, the two JSON files, and what has left the process
  (messages handed to the channel, the stage line the handler logs at each entry, socket
  events).
\<close>

record world =
  awaitingConfirmation :: "jid \<rightharpoonup> awaiting"
  selectedProduct :: "jid \<rightharpoonup> ProductDataType"
  formData :: "jid \<rightharpoonup> FormDataItem"
  awaitingPayment :: "jid \<rightharpoonup> bool"
  awaitingProduct :: "jid \<rightharpoonup> bool"
  productsMode :: bool
  sessions :: sessionMap
  sessionsFile :: "sessionMap jsonFile"
  ordersFile :: "Order list jsonFile"
  outbox :: "(jid \<times> outmsg) list"
  stageLog :: "(jid \<times> StageType) list"
  emitted :: "(string \<times> Order) list"

record DomicilioResult =
  costo :: int
  imagen :: string

text \<open>
  What the surroundings answer during one run: the clock, whether the channel accepts a
  message, the answer of \<open>POST /calculate\<close> (\<open>None\<close> when axios throws), the download of the
  map image, \<open>data.json\<close> before and after \<open>fetchSpreadsheetData\<close>, the assets, the relay of
  the receipt, the random names, the environment variables. Writing a file is taken to
  succeed.
\<close>

record env =
  now :: int
  sendOk :: "jid \<Rightarrow> outmsg \<Rightarrow> bool"
  calculate :: "string option \<Rightarrow> string option \<Rightarrow> string option \<Rightarrow> DomicilioResult option"
  mapImageOk :: bool
  dataFile :: "ProductDataType list jsonFile"
  dataFileAfterFetch :: "ProductDataType list jsonFile"
  productImageOk :: bool
  qrReadable :: bool
  catalogReadable :: bool
  relayOk :: bool
  uniqueId :: string
  uuid :: string
  paymentNumber :: "string option"
  ioPresent :: bool
  inactivityTimeout :: int

section \<open>Effects\<close>

text \<open>
  A statement takes the world and returns it changed, with \<open>None\<close> when it throws (an
  \<open>async\<close> function then rejects). What was written before the throw stays written.
\<close>

type_synonym 'a io = "world \<Rightarrow> 'a option \<times> world"

definition ret :: "'a \<Rightarrow> 'a io" where
  "ret x = (\<lambda>w. (Some x, w))"

definition throw :: "'a io" where
  "throw = (\<lambda>w. (None, w))"

definition andThen :: "'a io \<Rightarrow> ('a \<Rightarrow> 'b io) \<Rightarrow> 'b io" where
  "andThen m f = (\<lambda>w. case m w of (None, w') \<Rightarrow> (None, w') | (Some x, w') \<Rightarrow> f x w')"

definition seq :: "unit io \<Rightarrow> 'b io \<Rightarrow> 'b io" where
  "seq m k = andThen m (\<lambda>_. k)"

definition tryCatch :: "'a io \<Rightarrow> 'a io \<Rightarrow> 'a io" where
  "tryCatch m h = (\<lambda>w. case m w of (None, w') \<Rightarrow> h w' | (Some x, w') \<Rightarrow> (Some x, w'))"

definition modify :: "(world \<Rightarrow> world) \<Rightarrow> unit io" where
  "modify f = (\<lambda>w. (Some (), f w))"

definition gets :: "(world \<Rightarrow> 'a) \<Rightarrow> 'a io" where
  "gets f = (\<lambda>w. (Some (f w), w))"

text \<open>A read that throws when the file cannot be read.\<close>

definition require :: "bool \<Rightarrow> unit io" where
  "require ok = (if ok then ret () else throw)"

text \<open>\<open>bot.sendMessage\<close> and \<open>bot.relayMessage\<close>.\<close>

definition sendMessage :: "env \<Rightarrow> jid \<Rightarrow> outmsg \<Rightarrow> unit io" where
  "sendMessage e recipient msg =
     (\<lambda>w. if sendOk e recipient msg then (Some (), w\<lparr>outbox := outbox w @ [(recipient, msg)]\<rparr>)
          else (None, w))"

definition relayMessage :: "env \<Rightarrow> jid \<Rightarrow> unit io" where
  "relayMessage e recipient =
     (\<lambda>w. if relayOk e then (Some (), w\<lparr>outbox := outbox w @ [(recipient, RelayedReceipt)]\<rparr>)
          else (None, w))"

section \<open>Session store\<close>

definition loadSessions :: "unit io" where
  "loadSessions =
     (\<lambda>w. case sessionsFile w of
             Absent \<Rightarrow> (Some (), w)
           | Malformed \<Rightarrow> (None, w)
           | Content parsed \<Rightarrow> (Some (), w\<lparr>sessions := parsed\<rparr>))"

definition saveSessions :: "unit io" where
  "saveSessions = modify (\<lambda>w. w\<lparr>sessionsFile := Content (sessions w)\<rparr>)"

text \<open>
  The loop of \<open>checkExpiredSessions\<close> over \<open>Object.entries(sessions)\<close>: it collects the
  expired senders and sends each a goodbye, whose failure is caught and logged.
\<close>

fun sweepLoop :: "env \<Rightarrow> (jid \<times> UserData) list \<Rightarrow> jid list \<Rightarrow> world \<Rightarrow> jid list \<times> world" where
  "sweepLoop e [] expiredSessions w = (expiredSessions, w)"
| "sweepLoop e ((j, userData) # rest) expiredSessions w =
     (case lastTime userData of
        None \<Rightarrow> sweepLoop e rest expiredSessions w
      | Some t \<Rightarrow>
          if t \<noteq> 0 \<and> now e - t > inactivityTimeout e
          then sweepLoop e rest (expiredSessions @ [j])
                 (snd (tryCatch (sendMessage e j SessionClosed) (ret ()) w))
          else sweepLoop e rest expiredSessions w)"

text \<open>\<open>checkExpiredSessions\<close>; the result is its local \<open>expiredSessions\<close>.\<close>

definition checkExpiredSessions :: "env \<Rightarrow> jid list io" where
  "checkExpiredSessions e =
     seq loadSessions
       (\<lambda>w. let (expiredSessions, w1) = sweepLoop e (sessions w) [] w;
                w2 = w1\<lparr>sessions := foldl (\<lambda>ss j. AList.delete j ss) (sessions w1) expiredSessions\<rparr>
            in if length expiredSessions > 0
               then seq saveSessions (ret expiredSessions) w2
               else (Some expiredSessions, w2))"

section \<open>Order ledger\<close>

definition loadOrders :: "world \<Rightarrow> Order list" where
  "loadOrders w = (case ordersFile w of Content orders \<Rightarrow> orders | Absent \<Rightarrow> [] | Malformed \<Rightarrow> [])"

definition saveOrders :: "Order list \<Rightarrow> world \<Rightarrow> world" where
  "saveOrders orders w = w\<lparr>ordersFile := Content orders\<rparr>"

definition emit :: "env \<Rightarrow> string \<Rightarrow> Order \<Rightarrow> world \<Rightarrow> world" where
  "emit e event order w = (if ioPresent e then w\<lparr>emitted := emitted w @ [(event, order)]\<rparr> else w)"

definition createOrder :: "env \<Rightarrow> OrderData \<Rightarrow> world \<Rightarrow> Order \<times> world" where
  "createOrder e orderData w =
     (let orders = loadOrders w;
          newOrder = \<lparr>order_id = uuid e, timestamp = now e, status = st_new,
                      customer = od_customer orderData, product = od_product orderData,
                      payment = od_payment orderData, order_notes = od_notes orderData,
                      attendedBy = od_attendedBy orderData,
                      attendedTimestamp = od_attendedTimestamp orderData\<rparr>;
          w1 = saveOrders (orders @ [newOrder]) w
      in (newOrder, emit e ''newOrder'' newOrder w1))"

text \<open>\<open>findIndex\<close>, with \<open>None\<close> for \<open>-1\<close>.\<close>

fun findIndex :: "('a \<Rightarrow> bool) \<Rightarrow> 'a list \<Rightarrow> nat option" where
  "findIndex P [] = None"
| "findIndex P (x # xs) = (if P x then Some 0 else map_option Suc (findIndex P xs))"

definition updateOrderStatus ::
  "env \<Rightarrow> string \<Rightarrow> Status \<Rightarrow> string option \<Rightarrow> world \<Rightarrow> Order option \<times> world" where
  "updateOrderStatus e orderId newStatus attendedBy' w =
     (let orders = loadOrders w in
      case findIndex (\<lambda>order. order_id order = orderId) orders of
        None \<Rightarrow> (None, w)
      | Some orderIndex \<Rightarrow>
          (let o1 = (orders ! orderIndex)\<lparr>status := newStatus\<rparr>;
               o2 = (if newStatus = st_completed \<and> truthyStr attendedBy'
                     then o1\<lparr>attendedBy := attendedBy', attendedTimestamp := Some (now e)\<rparr>
                     else o1);
               w1 = saveOrders (orders[orderIndex := o2]) w
           in (Some o2, emit e ''orderUpdated'' o2 w1)))"

text \<open>
  \<open>if (criteria.x && bad) return false\<close>: a criterion rejects an order only when it is
  truthy.
\<close>

definition numRejects :: "int option \<Rightarrow> (int \<Rightarrow> bool) \<Rightarrow> bool" where
  "numRejects criterion bad = (case criterion of None \<Rightarrow> False | Some n \<Rightarrow> n \<noteq> 0 \<and> bad n)"

definition strRejects :: "string option \<Rightarrow> (string \<Rightarrow> bool) \<Rightarrow> bool" where
  "strRejects criterion bad = (case criterion of None \<Rightarrow> False | Some s \<Rightarrow> s \<noteq> [] \<and> bad s)"

definition orderPasses :: "OrderSearchCriteria \<Rightarrow> Order \<Rightarrow> bool" where
  "orderPasses criteria order =
     (if (case c_status criteria of None \<Rightarrow> False | Some s \<Rightarrow> status order \<noteq> s) then False
      else if numRejects (c_fromDate criteria) (\<lambda>d. timestamp order < d) then False
      else if numRejects (c_toDate criteria) (\<lambda>d. timestamp order > d) then False
      else if strRejects (c_customerId criteria) (\<lambda>s. cust_idNumber (customer order) \<noteq> s) then False
      else if strRejects (c_customerName criteria)
                (\<lambda>s. \<not> includesStr (toLowerCase (cust_name (customer order))) (toLowerCase s)) then False
      else if strRejects (c_customerPhone criteria)
                (\<lambda>s. \<not> includesStr (cust_phone (customer order)) s) then False
      else if truthyId (c_productId criteria) \<and> prod_id (product order) \<noteq> c_productId criteria then False
      else if strRejects (c_productName criteria)
                (\<lambda>s. \<not> truthyStr (prod_name (product order)) \<or>
                     \<not> includesStr (toLowerCase (case prod_name (product order) of Some n \<Rightarrow> n | None \<Rightarrow> []))
                          (toLowerCase s)) then False
      else if numRejects (c_minTotal criteria) (\<lambda>t. pay_total (payment order) < t) then False
      else if numRejects (c_maxTotal criteria) (\<lambda>t. pay_total (payment order) > t) then False
      else if strRejects (c_attendedBy criteria)
                (\<lambda>s. \<not> truthyStr (attendedBy order) \<or>
                     \<not> includesStr (toLowerCase (case attendedBy order of Some n \<Rightarrow> n | None \<Rightarrow> []))
                          (toLowerCase s)) then False
      else True)"

definition searchOrders :: "OrderSearchCriteria \<Rightarrow> world \<Rightarrow> Order list" where
  "searchOrders criteria w = filter (orderPasses criteria) (loadOrders w)"

section \<open>Conversation engine\<close>

text \<open>The comparisons of the three confirmation points, on the message content as it came.\<close>

definition isSi :: "string option \<Rightarrow> bool" where
  "isSi c = (c = Some ''si'' \<or> c = Some ''Si'' \<or> c = Some ''SI'' \<or> c = Some ''sI'')"

definition isNo :: "string option \<Rightarrow> bool" where
  "isNo c = (c = Some ''no'' \<or> c = Some ''No'' \<or> c = Some ''NO'' \<or> c = Some ''nO'')"

text \<open>\<open>message.content?.trim() || ""\<close>.\<close>

definition trimOrEmpty :: "string option \<Rightarrow> string" where
  "trimOrEmpty c = (case c of None \<Rightarrow> [] | Some s \<Rightarrow> trim s)"

text \<open>\<open>x || 0\<close> and \<open>x ?? 0\<close> on an optional number, \<open>x || "N/A"\<close> on an optional string.\<close>

definition orZero :: "int option \<Rightarrow> int" where
  "orZero x = (case x of None \<Rightarrow> 0 | Some n \<Rightarrow> n)"

definition orNA :: "string option \<Rightarrow> string" where
  "orNA x = (case x of None \<Rightarrow> ''N/A'' | Some s \<Rightarrow> if s = [] then ''N/A'' else s)"

text \<open>
  \<open>formState\<close> is a reference to the object stored under \<open>awaitingConfirmation[sender]\<close>:
  an assignment to one of its properties is a change of that entry.
\<close>

definition setForm :: "jid \<Rightarrow> FormState \<Rightarrow> unit io" where
  "setForm sender formState =
     modify (\<lambda>w. w\<lparr>awaitingConfirmation := (awaitingConfirmation w)(sender \<mapsto> AForm formState)\<rparr>)"

text \<open>\<open>axios.post(.../calculate)\<close> and the download of the map image.\<close>

definition postCalculate :: "env \<Rightarrow> FormState \<Rightarrow> DomicilioResult io" where
  "postCalculate e formState =
     (\<lambda>w. (calculate e (address formState) (barrio formState) (city formState), w))"

text \<open>The price as the messages print it: the number, or \<open>N/A\<close> when it is falsy.\<close>

definition formatted :: "int option \<Rightarrow> int option" where
  "formatted x = (if truthyNum x then x else None)"

text \<open>The \<open>addressCity\<close> branch.\<close>

definition cityStep :: "env \<Rightarrow> FormattedMessage \<Rightarrow> jid \<Rightarrow> FormState \<Rightarrow> unit io" where
  "cityStep e m sender formState =
     (let f1 = formState\<lparr>city := Some (trimOrEmpty (content m))\<rparr> in
      seq (setForm sender f1)
        (tryCatch
           (andThen (postCalculate e f1) (\<lambda>result.
              let f2 = f1\<lparr>deliveryCost := Some (costo result), mapImagePath := Some (imagen result)\<rparr> in
              seq (setForm sender f2)
             (seq (require (mapImageOk e))
             (seq (sendMessage e sender LocationImage)
             (let f3 = f2\<lparr>stage := finalConfirmation\<rparr> in
              seq (setForm sender f3)
             (andThen (gets (\<lambda>w. selectedProduct w sender)) (\<lambda>selected.
                sendMessage e sender
                  (FinalSummary f3
                     (case selected of
                        None \<Rightarrow> None
                      | Some p \<Rightarrow>
                          Some (Nombre p, formatted (orNull (Precio p)), costo result,
                                if truthyNum (orNull (Precio p))
                                then orZero (orNull (Precio p)) + costo result
                                else costo result))))))))))
           (sendMessage e sender DeliveryCostError)))"

text \<open>The \<open>finalConfirmation\<close> branch.\<close>

definition finalStep :: "env \<Rightarrow> FormattedMessage \<Rightarrow> jid \<Rightarrow> FormState \<Rightarrow> unit io" where
  "finalStep e m sender formState =
     (if isSi (content m) then
        seq (modify (\<lambda>w. w\<lparr>formData := (formData w)(sender \<mapsto>
               \<lparr>fd_name = name formState, fd_idNumber = idNumber formState,
                fd_address = address formState, fd_barrio = barrio formState,
                fd_city = city formState, fd_deliveryCost = deliveryCost formState\<rparr>)\<rparr>))
       (andThen (gets (\<lambda>w. selectedProduct w sender)) (\<lambda>selected.
          let price = (case selected of None \<Rightarrow> None | Some p \<Rightarrow> orNull (Precio p));
              total = (if truthyNum price then orZero price + orZero (deliveryCost formState)
                       else orZero (deliveryCost formState))
          in seq (require (qrReadable e))
            (seq (sendMessage e sender
                    (PaymentInstructions (formatted price) (formatted (deliveryCost formState)) total))
            (seq (modify (\<lambda>w. w\<lparr>awaitingPayment := (awaitingPayment w)(sender \<mapsto> True)\<rparr>))
                 (modify (\<lambda>w. w\<lparr>awaitingConfirmation := (awaitingConfirmation w)(sender := None)\<rparr>))))))
      else if isNo (content m) then
        seq (modify (\<lambda>w. w\<lparr>awaitingConfirmation := (awaitingConfirmation w)(sender := None)\<rparr>))
       (seq (modify (\<lambda>w. w\<lparr>selectedProduct := (selectedProduct w)(sender := None)\<rparr>))
       (seq (modify (\<lambda>w. w\<lparr>formData := (formData w)(sender := None)\<rparr>))
       (seq (modify (\<lambda>w. w\<lparr>awaitingProduct := (awaitingProduct w)(sender \<mapsto> True)\<rparr>))
            (sendMessage e sender TryAgainAskProduct))))
      else sendMessage e sender OnlySiNo)"

text \<open>The branch of \<open>case 'confirmation'\<close> for an entry that is a \<open>FormState\<close> object.\<close>

definition formStep :: "env \<Rightarrow> FormattedMessage \<Rightarrow> jid \<Rightarrow> FormState \<Rightarrow> unit io" where
  "formStep e m sender formState =
     (case stage formState of
        basicName \<Rightarrow>
          seq (setForm sender (formState\<lparr>name := Some (trimOrEmpty (content m)), stage := basicId\<rparr>))
              (sendMessage e sender AskIdNumber)
      | basicId \<Rightarrow>
          seq (setForm sender
                 (formState\<lparr>idNumber := Some (trimOrEmpty (content m)), stage := basicConfirmation\<rparr>))
              (sendMessage e sender
                 (ConfirmBasicInfo (name formState) (Some (trimOrEmpty (content m)))))
      | basicConfirmation \<Rightarrow>
          if isSi (content m) then
            seq (setForm sender (formState\<lparr>stage := addressBarrio\<rparr>)) (sendMessage e sender AskBarrio)
          else if isNo (content m) then
            seq (setForm sender (formState\<lparr>stage := basicName\<rparr>)) (sendMessage e sender RestartAskName)
          else sendMessage e sender OnlySiNo
      | addressBarrio \<Rightarrow>
          seq (setForm sender (formState\<lparr>barrio := Some (trimOrEmpty (content m)), stage := addressAddress\<rparr>))
              (sendMessage e sender AskAddress)
      | addressAddress \<Rightarrow>
          seq (setForm sender (formState\<lparr>address := Some (trimOrEmpty (content m)), stage := addressCity\<rparr>))
              (sendMessage e sender AskCity)
      | addressCity \<Rightarrow> cityStep e m sender formState
      | finalConfirmation \<Rightarrow> finalStep e m sender formState)"

text \<open>The other branch: the entry is \<open>true\<close>, the product has just been shown.\<close>

definition simpleConfirmation :: "env \<Rightarrow> FormattedMessage \<Rightarrow> jid \<Rightarrow> unit io" where
  "simpleConfirmation e m sender =
     (if isSi (content m) then
        seq (setForm sender
               \<lparr>stage = basicName, name = None, idNumber = None, address = None, barrio = None,
                city = None, deliveryCost = None, mapImagePath = None\<rparr>)
            (sendMessage e sender AskName)
      else if isNo (content m) then
        seq (modify (\<lambda>w. w\<lparr>awaitingProduct := (awaitingProduct w)(sender \<mapsto> True)\<rparr>))
       (seq (modify (\<lambda>w. w\<lparr>awaitingConfirmation := (awaitingConfirmation w)(sender := None)\<rparr>))
            (sendMessage e sender AskProductAgain))
      else sendMessage e sender OnlySiNoRetry)"

definition confirmationBranch :: "env \<Rightarrow> FormattedMessage \<Rightarrow> jid \<Rightarrow> unit io" where
  "confirmationBranch e m sender =
     (\<lambda>w. case awaitingConfirmation w sender of
             Some (AForm formState) \<Rightarrow> formStep e m sender formState w
           | Some (ABool b) \<Rightarrow> simpleConfirmation e m sender w
           | None \<Rightarrow> simpleConfirmation e m sender w)"

text \<open>
  \<open>case 'product'\<close>. When \<open>data.json\<close> is missing, \<open>fetchSpreadsheetData\<close> runs first (it
  catches its own errors); then the file is read and parsed, which throws when it still is
  missing or is not JSON.
\<close>

definition readData :: "env \<Rightarrow> ProductDataType list io" where
  "readData e =
     (case (if dataFile e = Absent then dataFileAfterFetch e else dataFile e) of
        Content data \<Rightarrow> ret data
      | Absent \<Rightarrow> throw
      | Malformed \<Rightarrow> throw)"

definition productBranch :: "env \<Rightarrow> FormattedMessage \<Rightarrow> jid \<Rightarrow> unit io" where
  "productBranch e m sender =
     (case content m of
        None \<Rightarrow> ret ()
      | Some text \<Rightarrow>
          if text = [] then ret ()
          else
            tryCatch
              (andThen (readData e) (\<lambda>data.
                 case findProduct data text of
                   Some found \<Rightarrow>
                     seq (modify (\<lambda>w. w\<lparr>selectedProduct := (selectedProduct w)(sender \<mapsto> found)\<rparr>))
                    (seq (sendMessage e sender (ProductCard found))
                    (seq (tryCatch
                            (if truthyStr (orNull (ImagenURL found))
                             then seq (require (productImageOk e)) (sendMessage e sender ProductImage)
                             else ret ())
                            (ret ()))
                    (seq (modify (\<lambda>w. w\<lparr>awaitingProduct := (awaitingProduct w)(sender \<mapsto> False)\<rparr>))
                    (seq (modify (\<lambda>w. w\<lparr>awaitingConfirmation :=
                                           (awaitingConfirmation w)(sender \<mapsto> ABool True)\<rparr>))
                         (sendMessage e sender ConfirmProductQuestion)))))
                 | None \<Rightarrow> sendMessage e sender (ProductNotFound text)))
              (sendMessage e sender ProductSearchError))"

text \<open>
  \<open>case 'payment'\<close>, step 2: relay the receipt to the operator and keep its thumbnail; the
  result is \<open>paymentImagePath\<close>.
\<close>

definition paymentPath :: "env \<Rightarrow> string" where
  "paymentPath e = ''/media/payments/payment_'' @ uniqueId e @ ''.jpg''"

definition forwardReceipt :: "env \<Rightarrow> jid \<Rightarrow> ImageMessage \<Rightarrow> string io" where
  "forwardReceipt e targetJid imageMsg =
     tryCatch
       (seq (relayMessage e targetJid)
          (case jpegThumbnail imageMsg of
             Some thumb \<Rightarrow> ret (paymentPath e)
           | None \<Rightarrow> ret []))
       (case jpegThumbnail imageMsg of
          Some thumb \<Rightarrow>
            if length thumb > 0 then
              tryCatch
                (seq (sendMessage e targetJid ReceiptThumbnail) (ret (paymentPath e)))
                (seq (sendMessage e targetJid ReceiptForwardFailed) (ret (paymentPath e)))
            else seq (sendMessage e targetJid ReceiptNotProcessed) (ret [])
        | None \<Rightarrow> seq (sendMessage e targetJid ReceiptNotProcessed) (ret []))"

text \<open>The argument the payment stage hands to \<open>createOrder\<close>.\<close>

definition paymentOrderData :: "FormDataItem \<Rightarrow> ProductDataType \<Rightarrow> string \<Rightarrow> string \<Rightarrow> OrderData" where
  "paymentOrderData formDataItem productData senderNumber paymentImagePath =
     \<lparr>od_customer =
        \<lparr>cust_name = orNA (fd_name formDataItem), cust_idNumber = orNA (fd_idNumber formDataItem),
         cust_phone = senderNumber, cust_address = orNA (fd_address formDataItem),
         cust_barrio = orNA (fd_barrio formDataItem), cust_city = orNA (fd_city formDataItem)\<rparr>,
      od_product =
        \<lparr>prod_id = orNull (ID productData), prod_name = orNull (Nombre productData),
         prod_description = orNull (Descripcion productData),
         prod_price = orNull (Precio productData),
         prod_imageUrl = orNull (ImagenURL productData)\<rparr>,
      od_payment =
        \<lparr>pay_total = (if truthyNum (orNull (Precio productData))
                      then orZero (orNull (Precio productData)) +
                           (if truthyNum (fd_deliveryCost formDataItem)
                            then orZero (fd_deliveryCost formDataItem) else 0)
                      else 0),
         pay_productPrice = (if truthyNum (orNull (Precio productData))
                             then orZero (orNull (Precio productData)) else 0),
         pay_deliveryCost = (if truthyNum (fd_deliveryCost formDataItem)
                             then orZero (fd_deliveryCost formDataItem) else 0),
         pay_imagePath = Some paymentImagePath\<rparr>,
      od_notes = None, od_attendedBy = None, od_attendedTimestamp = None\<rparr>"

definition emptyFormData :: FormDataItem where
  "emptyFormData =
     \<lparr>fd_name = None, fd_idNumber = None, fd_address = None, fd_barrio = None, fd_city = None,
      fd_deliveryCost = None\<rparr>"

definition emptyProduct :: ProductDataType where
  "emptyProduct =
     \<lparr>ID = Undefined, Nombre = Undefined, Descripcion = Undefined, Precio = Undefined,
      Stock = Undefined, ImagenURL = Undefined\<rparr>"

definition clearSender :: "jid \<Rightarrow> world \<Rightarrow> world" where
  "clearSender sender w =
     w\<lparr>awaitingPayment := (awaitingPayment w)(sender := None),
       awaitingProduct := (awaitingProduct w)(sender := None),
       awaitingConfirmation := (awaitingConfirmation w)(sender := None),
       selectedProduct := (selectedProduct w)(sender := None),
       formData := (formData w)(sender := None)\<rparr>"

definition targetJidOf :: "env \<Rightarrow> jid" where
  "targetJidOf e =
     (let targetNumber = (case paymentNumber e of
                            None \<Rightarrow> ''573023606047''
                          | Some n \<Rightarrow> if n = [] then ''573023606047'' else n)
      in if includesStr targetNumber ''@'' then targetNumber else targetNumber @ ''@s.whatsapp.net'')"

definition paymentBranch :: "env \<Rightarrow> FormattedMessage \<Rightarrow> jid \<Rightarrow> unit io" where
  "paymentBranch e m sender =
     (case imageMessage m of
        None \<Rightarrow> ret ()
      | Some imageMsg \<Rightarrow>
          tryCatch
            (andThen (gets (\<lambda>w. case formData w sender of Some d \<Rightarrow> d | None \<Rightarrow> emptyFormData))
               (\<lambda>formDataItem.
             andThen (gets (\<lambda>w. case selectedProduct w sender of Some p \<Rightarrow> p | None \<Rightarrow> emptyProduct))
               (\<lambda>productData.
             let senderNumber = CHR ''+'' # beforeAt sender in
             seq (sendMessage e (targetJidOf e) (OrderDetails formDataItem productData senderNumber))
            (andThen (forwardReceipt e (targetJidOf e) imageMsg) (\<lambda>paymentImagePath.
             andThen (\<lambda>w. case createOrder e
                                  (paymentOrderData formDataItem productData senderNumber
                                     paymentImagePath) w
                           of (newOrder, w') \<Rightarrow> (Some newOrder, w'))
               (\<lambda>newOrder.
             seq (sendMessage e sender ThanksForPurchase)
            (seq (modify (clearSender sender))
            (seq loadSessions
            (andThen (gets (\<lambda>w. map_of (sessions w) sender)) (\<lambda>entry.
               case entry of
                 Some userData \<Rightarrow>
                   seq (modify (\<lambda>w. w\<lparr>sessions := AList.delete sender (sessions w)\<rparr>)) saveSessions
               | None \<Rightarrow> ret ()))))))))))
            (sendMessage e sender PaymentProblem))"

text \<open>
  \<open>case 'new'\<close>, first contact or more than thirty minutes since the last one: the welcome
  path.
\<close>

definition greetNew :: "env \<Rightarrow> FormattedMessage \<Rightarrow> jid \<Rightarrow> unit io" where
  "greetNew e m sender =
     seq (modify (\<lambda>w. w\<lparr>sessions := AList.update sender \<lparr>lastTime = Some (now e)\<rparr> (sessions w)\<rparr>))
    (seq saveSessions
    (seq (sendMessage e sender (Welcome (pushName m)))
    (seq (require (catalogReadable e))
    (seq (sendMessage e sender CatalogDocument)
    (seq (modify (\<lambda>w. w\<lparr>productsMode := True,
                         awaitingProduct := (awaitingProduct w)(sender \<mapsto> True)\<rparr>))
         (sendMessage e sender AskProduct))))))"

text \<open>The stage the handler resolves at its entry.\<close>

definition truthyAwaiting :: "awaiting option \<Rightarrow> bool" where
  "truthyAwaiting a = (case a of None \<Rightarrow> False | Some (ABool b) \<Rightarrow> b | Some (AForm f) \<Rightarrow> True)"

definition resolveStage :: "world \<Rightarrow> jid \<Rightarrow> StageType" where
  "resolveStage w sender =
     (if truthyAwaiting (awaitingConfirmation w sender) then stage_confirmation
      else if awaitingPayment w sender = Some True then stage_payment
      else if awaitingProduct w sender = Some True then stage_product
      else stage_new)"

text \<open>\<open>!userData.lastTime || (now - userData.lastTime) > 30 * 60 * 1000\<close>.\<close>

definition sessionStale :: "env \<Rightarrow> UserData option \<Rightarrow> bool" where
  "sessionStale e entry =
     (case entry of
        None \<Rightarrow> True
      | Some userData \<Rightarrow>
          (case lastTime userData of
             None \<Rightarrow> True
           | Some t \<Rightarrow> t = 0 \<or> now e - t > 30 * 60 * 1000))"

text \<open>\<open>MessageHandler\<close>. In the \<open>new\<close> stage with a fresh session it calls itself.\<close>

function MessageHandler :: "env \<Rightarrow> FormattedMessage \<Rightarrow> world \<Rightarrow> unit option \<times> world" where
  "MessageHandler e m w =
     (if fromMe m then (Some (), w)
      else
        let sender = remoteJid m;
            resolved = resolveStage w sender;
            w1 = w\<lparr>stageLog := stageLog w @ [(sender, resolved)]\<rparr>
        in case resolved of
             stage_confirmation \<Rightarrow> confirmationBranch e m sender w1
           | stage_product \<Rightarrow> productBranch e m sender w1
           | stage_payment \<Rightarrow> paymentBranch e m sender w1
           | stage_new \<Rightarrow>
               if \<not> endsWith sender ''@g.us'' \<and> sender \<noteq> [] then
                 (case loadSessions w1 of
                    (None, w2) \<Rightarrow> (None, w2)
                  | (Some u, w2) \<Rightarrow>
                      if sessionStale e (map_of (sessions w2) sender) then greetNew e m sender w2
                      else if truthyStr (content m) then
                        MessageHandler e m
                          (w2\<lparr>awaitingProduct := (awaitingProduct w2)(sender \<mapsto> True)\<rparr>)
                      else (Some (), w2))
               else (Some (), w1))"
  by pat_completeness auto
termination
  apply (relation "measure (\<lambda>(e, m, w). if resolveStage w (remoteJid m) = stage_new then 1 else 0)")
   apply simp
  apply (auto simp: resolveStage_def loadSessions_def split: jsonFile.splits if_splits)
  done

text \<open>The state of a process that has just started, and a run over a list of messages.\<close>

definition initWorld :: "sessionMap jsonFile \<Rightarrow> Order list jsonFile \<Rightarrow> world" where
  "initWorld sf orf =
     \<lparr>awaitingConfirmation = Map.empty, selectedProduct = Map.empty, formData = Map.empty,
      awaitingPayment = Map.empty, awaitingProduct = Map.empty, productsMode = False,
      sessions = [], sessionsFile = sf, ordersFile = orf, outbox = [], stageLog = [],
      emitted = []\<rparr>"

text \<open>
  One event after the other, each handled to its end before the next: an inbound message, or
  a tick of the timer of the session manager. A rejected promise leaves the process running.
\<close>

datatype event = Inbound env FormattedMessage | Sweep env

fun step :: "event \<Rightarrow> world \<Rightarrow> world" where
  "step (Inbound e m) w = snd (MessageHandler e m w)"
| "step (Sweep e) w = snd (checkExpiredSessions e w)"

definition run :: "event list \<Rightarrow> world \<Rightarrow> world" where
  "run events w = foldl (\<lambda>w' ev. step ev w') w events"

section \<open>Handlers that interleave\<close>

text \<open>
  The listener of \<open>messages.upsert\<close> calls \<open>MessageHandler\<close> and does not await it. The call
  runs the handler up to its first \<open>await\<close> and returns a promise; the loop goes on with the
  next message, and what follows the \<open>await\<close> runs later, when the awaited promise settles.
  The promise of a handler is fulfilled, rejected, or pending with the code that is still to
  run.
\<close>

datatype promise = Fulfilled | Rejected | Pending "world \<Rightarrow> promise \<times> world"

type_synonym async = "world \<Rightarrow> promise \<times> world"

definition fulfil :: async where
  "fulfil = (\<lambda>w. (Fulfilled, w))"

text \<open>A statement that does not await, and then the rest; a throw rejects the promise.\<close>

definition sync :: "unit io \<Rightarrow> async \<Rightarrow> async" where
  "sync m rest = (\<lambda>w. case m w of (None, w') \<Rightarrow> (Rejected, w') | (Some u, w') \<Rightarrow> rest w')"

text \<open>
  \<open>await bot.sendMessage(...)\<close>, and then the rest: the handler stops here, and goes on with
  the world as it is when the send settles.
\<close>

definition awaitSend :: "env \<Rightarrow> jid \<Rightarrow> outmsg \<Rightarrow> async \<Rightarrow> async" where
  "awaitSend e recipient msg rest = (\<lambda>w. (Pending (sync (sendMessage e recipient msg) rest), w))"

text \<open>
  The \<open>finalConfirmation\<close> branch with its awaits. On \<open>si\<close> the two entries are written after
  the send, on \<open>no\<close> before it.
\<close>

definition finalStepAsync :: "env \<Rightarrow> FormattedMessage \<Rightarrow> jid \<Rightarrow> FormState \<Rightarrow> async" where
  "finalStepAsync e m sender formState =
     (if isSi (content m) then
        sync (modify (\<lambda>w. w\<lparr>formData := (formData w)(sender \<mapsto>
               \<lparr>fd_name = name formState, fd_idNumber = idNumber formState,
                fd_address = address formState, fd_barrio = barrio formState,
                fd_city = city formState, fd_deliveryCost = deliveryCost formState\<rparr>)\<rparr>))
       (\<lambda>w.
          let selected = selectedProduct w sender;
              price = (case selected of None \<Rightarrow> None | Some p \<Rightarrow> orNull (Precio p));
              total = (if truthyNum price then orZero price + orZero (deliveryCost formState)
                       else orZero (deliveryCost formState))
          in sync (require (qrReadable e))
            (awaitSend e sender
               (PaymentInstructions (formatted price) (formatted (deliveryCost formState)) total)
            (sync (modify (\<lambda>w. w\<lparr>awaitingPayment := (awaitingPayment w)(sender \<mapsto> True)\<rparr>))
            (sync (modify (\<lambda>w. w\<lparr>awaitingConfirmation := (awaitingConfirmation w)(sender := None)\<rparr>))
                  fulfil))) w)
      else if isNo (content m) then
        sync (modify (\<lambda>w. w\<lparr>awaitingConfirmation := (awaitingConfirmation w)(sender := None)\<rparr>))
       (sync (modify (\<lambda>w. w\<lparr>selectedProduct := (selectedProduct w)(sender := None)\<rparr>))
       (sync (modify (\<lambda>w. w\<lparr>formData := (formData w)(sender := None)\<rparr>))
       (sync (modify (\<lambda>w. w\<lparr>awaitingProduct := (awaitingProduct w)(sender \<mapsto> True)\<rparr>))
             (awaitSend e sender TryAgainAskProduct fulfil))))
      else awaitSend e sender OnlySiNo fulfil)"

text \<open>
  The branch for a \<open>FormState\<close> object. The \<open>addressCity\<close> branch goes on writing through
  the reference \<open>formState\<close> after its awaits, which a dictionary of values cannot follow
  once another handler has removed the entry: it is not followed here (\<open>None\<close>).
\<close>

definition formStepAsync :: "env \<Rightarrow> FormattedMessage \<Rightarrow> jid \<Rightarrow> FormState \<Rightarrow> async option" where
  "formStepAsync e m sender formState =
     (case stage formState of
        basicName \<Rightarrow>
          Some (sync (setForm sender
                        (formState\<lparr>name := Some (trimOrEmpty (content m)), stage := basicId\<rparr>))
                  (awaitSend e sender AskIdNumber fulfil))
      | basicId \<Rightarrow>
          Some (sync (setForm sender
                        (formState\<lparr>idNumber := Some (trimOrEmpty (content m)), stage := basicConfirmation\<rparr>))
                  (awaitSend e sender
                     (ConfirmBasicInfo (name formState) (Some (trimOrEmpty (content m)))) fulfil))
      | basicConfirmation \<Rightarrow>
          Some (if isSi (content m) then
                  sync (setForm sender (formState\<lparr>stage := addressBarrio\<rparr>))
                    (awaitSend e sender AskBarrio fulfil)
                else if isNo (content m) then
                  sync (setForm sender (formState\<lparr>stage := basicName\<rparr>))
                    (awaitSend e sender RestartAskName fulfil)
                else awaitSend e sender OnlySiNo fulfil)
      | addressBarrio \<Rightarrow>
          Some (sync (setForm sender
                        (formState\<lparr>barrio := Some (trimOrEmpty (content m)), stage := addressAddress\<rparr>))
                  (awaitSend e sender AskAddress fulfil))
      | addressAddress \<Rightarrow>
          Some (sync (setForm sender
                        (formState\<lparr>address := Some (trimOrEmpty (content m)), stage := addressCity\<rparr>))
                  (awaitSend e sender AskCity fulfil))
      | addressCity \<Rightarrow> None
      | finalConfirmation \<Rightarrow> Some (finalStepAsync e m sender formState))"

definition simpleConfirmationAsync :: "env \<Rightarrow> FormattedMessage \<Rightarrow> jid \<Rightarrow> async" where
  "simpleConfirmationAsync e m sender =
     (if isSi (content m) then
        sync (setForm sender
               \<lparr>stage = basicName, name = None, idNumber = None, address = None, barrio = None,
                city = None, deliveryCost = None, mapImagePath = None\<rparr>)
            (awaitSend e sender AskName fulfil)
      else if isNo (content m) then
        sync (modify (\<lambda>w. w\<lparr>awaitingProduct := (awaitingProduct w)(sender \<mapsto> True)\<rparr>))
       (sync (modify (\<lambda>w. w\<lparr>awaitingConfirmation := (awaitingConfirmation w)(sender := None)\<rparr>))
             (awaitSend e sender AskProductAgain fulfil))
      else awaitSend e sender OnlySiNoRetry fulfil)"

definition confirmationAsync ::
  "env \<Rightarrow> FormattedMessage \<Rightarrow> jid \<Rightarrow> world \<Rightarrow> (promise \<times> world) option" where
  "confirmationAsync e m sender w =
     (case awaitingConfirmation w sender of
        Some (AForm formState) \<Rightarrow>
          (case formStepAsync e m sender formState of
             None \<Rightarrow> None
           | Some body \<Rightarrow> Some (body w))
      | Some (ABool b) \<Rightarrow> Some (simpleConfirmationAsync e m sender w)
      | None \<Rightarrow> Some (simpleConfirmationAsync e m sender w))"

text \<open>
  A call of \<open>MessageHandler\<close>: the promise it returns and the world it leaves when it
  returns to its caller. The stage is resolved and logged before any \<open>await\<close>. Only
  \<open>case 'confirmation'\<close> is followed between its awaits; a call that takes another case is
  outside what is stated below (\<open>None\<close>).
\<close>

definition MessageHandlerAsync ::
  "env \<Rightarrow> FormattedMessage \<Rightarrow> world \<Rightarrow> (promise \<times> world) option" where
  "MessageHandlerAsync e m w =
     (if fromMe m then Some (Fulfilled, w)
      else
        let sender = remoteJid m;
            resolved = resolveStage w sender;
            w1 = w\<lparr>stageLog := stageLog w @ [(sender, resolved)]\<rparr>
        in case resolved of
             stage_confirmation \<Rightarrow> confirmationAsync e m sender w1
           | stage_product \<Rightarrow> None
           | stage_payment \<Rightarrow> None
           | stage_new \<Rightarrow> None)"

text \<open>
  The loop of the listener over the messages of one \<open>messages.upsert\<close> event: a message of a
  group or of the status broadcast ends it (\<open>return\<close>); for any other message the handler is
  called and its promise is left alone.
\<close>

fun startAll ::
  "(env \<times> FormattedMessage) list \<Rightarrow> world \<Rightarrow> (promise list \<times> world) option" where
  "startAll [] w = Some ([], w)"
| "startAll ((e, m) # rest) w =
     (if endsWith (remoteJid m) ''@g.us'' \<or> remoteJid m = ''status@broadcast'' then Some ([], w)
      else case MessageHandlerAsync e m w of
             None \<Rightarrow> None
           | Some (p, w1) \<Rightarrow>
               (case startAll rest w1 of
                  None \<Rightarrow> None
                | Some (ps, w2) \<Rightarrow> Some (p # ps, w2)))"

text \<open>
  The awaited sends settle in an order that the channel decides: a list of positions in the
  list of promises. The handler at that position runs up to its next \<open>await\<close> or to its end;
  a position of a handler that has ended, or of none, is passed over.
\<close>

fun settle :: "nat list \<Rightarrow> promise list \<Rightarrow> world \<Rightarrow> promise list \<times> world" where
  "settle [] ps w = (ps, w)"
| "settle (i # later) ps w =
     (if i < length ps then
        (case ps ! i of
           Pending rest \<Rightarrow> (case rest w of (p, w') \<Rightarrow> settle later (ps[i := p]) w')
         | Fulfilled \<Rightarrow> settle later ps w
         | Rejected \<Rightarrow> settle later ps w)
      else settle later ps w)"

definition upsert ::
  "(env \<times> FormattedMessage) list \<Rightarrow> nat list \<Rightarrow> world \<Rightarrow> (promise list \<times> world) option" where
  "upsert messages order w =
     (case startAll messages w of
        None \<Rightarrow> None
      | Some (ps, w1) \<Rightarrow> Some (settle order ps w1))"

section \<open>Notions used in the statements\<close>

text \<open>The test of the sweep on one entry: a truthy \<open>lastTime\<close> older than the timeout.\<close>

definition expiredEntry :: "env \<Rightarrow> jid \<times> UserData \<Rightarrow> bool" where
  "expiredEntry e entry =
     (case lastTime (snd entry) of
        None \<Rightarrow> False
      | Some t \<Rightarrow> t \<noteq> 0 \<and> now e - t > inactivityTimeout e)"

text \<open>The session map a sweep works on: the file when it parses, else what is in memory.\<close>

definition knownSessions :: "world \<Rightarrow> sessionMap" where
  "knownSessions w =
     (case sessionsFile w of
        Content parsed \<Rightarrow> parsed
      | Absent \<Rightarrow> sessions w
      | Malformed \<Rightarrow> sessions w)"

text \<open>A statement keeps a property of the world, whether it returns or throws.\<close>

definition preserves :: "(world \<Rightarrow> bool) \<Rightarrow> 'a io \<Rightarrow> bool" where
  "preserves P m = (\<forall>w. P w \<longrightarrow> P (snd (m w)))"

text \<open>At most one of the three pending-stage entries of a sender is truthy.\<close>

definition atMostOne :: "world \<Rightarrow> jid \<Rightarrow> bool" where
  "atMostOne w j =
     (\<not> (truthyAwaiting (awaitingConfirmation w j) \<and> awaitingPayment w j = Some True) \<and>
      \<not> (truthyAwaiting (awaitingConfirmation w j) \<and> awaitingProduct w j = Some True) \<and>
      \<not> (awaitingPayment w j = Some True \<and> awaitingProduct w j = Some True))"

text \<open>
  When the handler calls itself: no pending stage, a private chat, a session file that loads,
  a session younger than thirty minutes, and a message with text.
\<close>

definition redispatches :: "env \<Rightarrow> FormattedMessage \<Rightarrow> world \<Rightarrow> bool" where
  "redispatches e m w =
     (\<not> fromMe m \<and> resolveStage w (remoteJid m) = stage_new \<and>
      \<not> endsWith (remoteJid m) ''@g.us'' \<and> remoteJid m \<noteq> [] \<and>
      sessionsFile w \<noteq> Malformed \<and>
      \<not> sessionStale e (map_of (knownSessions w) (remoteJid m)) \<and> truthyStr (content m))"

text \<open>
  The three pending-stage entries of a sender, and three properties that the stages keep:
  inside the form the confirmation entry stays truthy and the other two stay as they are;
  the payment stage leaves the three entries or removes all three; the product stage never
  makes a sender await a payment.
\<close>

definition pending :: "world \<Rightarrow> jid \<Rightarrow> awaiting option \<times> bool option \<times> bool option" where
  "pending w j = (awaitingConfirmation w j, awaitingPayment w j, awaitingProduct w j)"

definition inForm :: "jid \<Rightarrow> bool option \<Rightarrow> bool option \<Rightarrow> world \<Rightarrow> bool" where
  "inForm s p q w =
     (truthyAwaiting (awaitingConfirmation w s) \<and> awaitingPayment w s = p \<and> awaitingProduct w s = q)"

definition keptOrCleared :: "jid \<Rightarrow> awaiting option \<times> bool option \<times> bool option \<Rightarrow> world \<Rightarrow> bool" where
  "keptOrCleared s t w = (pending w s = t \<or> pending w s = (None, None, None))"

definition notPaying :: "jid \<Rightarrow> world \<Rightarrow> bool" where
  "notPaying s w = (awaitingPayment w s \<noteq> Some True \<and> atMostOne w s)"

text \<open>The spellings that the confirmation points accept.\<close>

definition yesVariants :: "string option set" where
  "yesVariants = {Some ''si'', Some ''Si'', Some ''SI'', Some ''sI''}"

definition noVariants :: "string option set" where
  "noVariants = {Some ''no'', Some ''No'', Some ''NO'', Some ''nO''}"

section \<open>Sample data\<close>

definition sampleEnv :: env where
  "sampleEnv =
     \<lparr>now = 1000, sendOk = (\<lambda>recipient msg. True),
      calculate = (\<lambda>a b c. Some \<lparr>costo = 5000, imagen = ''/images/map_1.png''\<rparr>),
      mapImageOk = True,
      dataFile = Content [\<lparr>ID = Val (IdNum 7), Nombre = Val ''Cafe'', Descripcion = Val ''molido'',
                           Precio = Null, Stock = Null, ImagenURL = Null\<rparr>],
      dataFileAfterFetch = Absent, productImageOk = True, qrReadable = True,
      catalogReadable = True, relayOk = True, uniqueId = ''1-2'', uuid = ''u1'',
      paymentNumber = None, ioPresent = False, inactivityTimeout = 1800000\<rparr>"

definition sampleOrder :: Order where
  "sampleOrder =
     \<lparr>order_id = ''u1'', timestamp = 1000, status = st_new,
      customer = \<lparr>cust_name = ''Ana'', cust_idNumber = ''123'', cust_phone = ''+57'',
                  cust_address = ''Calle 1'', cust_barrio = ''Centro'', cust_city = ''Bogota''\<rparr>,
      product = \<lparr>prod_id = Some (IdNum 7), prod_name = Some ''Cafe'',
                 prod_description = Some ''molido'', prod_price = Some 12000,
                 prod_imageUrl = None\<rparr>,
      payment = \<lparr>pay_total = 17000, pay_productPrice = 12000, pay_deliveryCost = 5000,
                 pay_imagePath = Some []\<rparr>,
      order_notes = None, attendedBy = None, attendedTimestamp = None\<rparr>"

definition sweepEnv :: env where
  "sweepEnv = sampleEnv\<lparr>now := 2000000000\<rparr>"

definition sweepWorld :: world where
  "sweepWorld =
     initWorld (Content [(''a@s'', \<lparr>lastTime = Some 1\<rparr>), (''b@s'', \<lparr>lastTime = Some 1999999000\<rparr>)])
       Absent"

definition textMsg :: "jid \<Rightarrow> string \<Rightarrow> FormattedMessage" where
  "textMsg sender c =
     \<lparr>fromMe = False, remoteJid = sender, content = Some c, pushName = None,
      imageMessage = None\<rparr>"

definition tazaItem :: ProductDataType where
  "tazaItem =
     \<lparr>ID = Val (IdNum 1), Nombre = Val ''Taza'', Descripcion = Val ''Taza para cafe'',
      Precio = Val 8000, Stock = Null, ImagenURL = Null\<rparr>"

text \<open>Its name ends in e with an acute accent, U+00E9.\<close>

definition cafeItem :: ProductDataType where
  "cafeItem =
     \<lparr>ID = Val (IdNum 2), Nombre = Val [CHR ''C'', CHR ''a'', CHR ''f'', CHR 0xE9],
      Descripcion = Val ''Molido'', Precio = Val 12000, Stock = Null, ImagenURL = Null\<rparr>"

definition imageMsg :: "jid \<Rightarrow> FormattedMessage" where
  "imageMsg sender =
     \<lparr>fromMe = False, remoteJid = sender, content = None, pushName = None,
      imageMessage = Some \<lparr>jpegThumbnail = None\<rparr>\<rparr>"

text \<open>
  A whole purchase by one sender, of the product of \<^term>\<open>sampleEnv\<close>, whose price is
  \<open>null\<close>, with a delivery cost of 5000.
\<close>

definition purchaseNullPrice :: "event list" where
  "purchaseNullPrice =
     [Inbound sampleEnv (textMsg ''57@s'' ''hola''),
      Inbound sampleEnv (textMsg ''57@s'' ''cafe''),
      Inbound sampleEnv (textMsg ''57@s'' ''si''),
      Inbound sampleEnv (textMsg ''57@s'' ''Ana''),
      Inbound sampleEnv (textMsg ''57@s'' ''123''),
      Inbound sampleEnv (textMsg ''57@s'' ''si''),
      Inbound sampleEnv (textMsg ''57@s'' ''Centro''),
      Inbound sampleEnv (textMsg ''57@s'' ''Calle 1''),
      Inbound sampleEnv (textMsg ''57@s'' ''Bogota''),
      Inbound sampleEnv (textMsg ''57@s'' ''si''),
      Inbound sampleEnv (imageMsg ''57@s'')]"

text \<open>
  The state after the product has been shown, the state with the form at \<open>addressCity\<close> and
  that form, an environment whose delivery-cost service fails, and \<open>Si\<close> with an accented i
  (U+00ED).
\<close>

definition shownWorld :: world where
  "shownWorld = run (take 2 purchaseNullPrice) (initWorld Absent Absent)"

definition cityWorld :: world where
  "cityWorld = run (take 8 purchaseNullPrice) (initWorld Absent Absent)"

definition cityForm :: FormState where
  "cityForm =
     \<lparr>stage = addressCity, name = Some ''Ana'', idNumber = Some ''123'',
      address = Some ''Calle 1'', barrio = Some ''Centro'', city = None, deliveryCost = None,
      mapImagePath = None\<rparr>"

definition failingQuoteEnv :: env where
  "failingQuoteEnv = sampleEnv\<lparr>calculate := (\<lambda>a b c. None)\<rparr>"

definition accentedSi :: string where
  "accentedSi = [CHR ''S'', CHR 0xED]"

text \<open>
  The state of the purchase once the summary with the delivery cost has been sent (the form
  is at \<open>finalConfirmation\<close>), and one \<open>messages.upsert\<close> event that brings \<open>si\<close> and then \<open>no\<close>
  from that sender.
\<close>

definition summaryWorld :: world where
  "summaryWorld = run (take 9 purchaseNullPrice) (initWorld Absent Absent)"

definition siThenNo :: "(env \<times> FormattedMessage) list" where
  "siThenNo = [(sampleEnv, textMsg ''57@s'' ''si''), (sampleEnv, textMsg ''57@s'' ''no'')]"

text \<open>A sender whose session is fresh, and criteria with every entry absent.\<close>

definition freshWorld :: world where
  "freshWorld = initWorld (Content [(''57@s'', \<lparr>lastTime = Some 900\<rparr>)]) Absent"

definition noCriteria :: OrderSearchCriteria where
  "noCriteria =
     \<lparr>c_status = None, c_fromDate = None, c_toDate = None, c_customerId = None,
      c_customerName = None, c_customerPhone = None, c_productId = None, c_productName = None,
      c_minTotal = None, c_maxTotal = None, c_attendedBy = None\<rparr>"

section \<open>Order ledger: proofs\<close>

lemma orderPasses_falsy:
  "orderPasses (c\<lparr>c_minTotal := Some 0\<rparr>) = orderPasses (c\<lparr>c_minTotal := None\<rparr>)"
  "orderPasses (c\<lparr>c_maxTotal := Some 0\<rparr>) = orderPasses (c\<lparr>c_maxTotal := None\<rparr>)"
  "orderPasses (c\<lparr>c_customerId := Some []\<rparr>) = orderPasses (c\<lparr>c_customerId := None\<rparr>)"
  "orderPasses (c\<lparr>c_customerName := Some []\<rparr>) = orderPasses (c\<lparr>c_customerName := None\<rparr>)"
  "orderPasses (c\<lparr>c_customerPhone := Some []\<rparr>) = orderPasses (c\<lparr>c_customerPhone := None\<rparr>)"
  "orderPasses (c\<lparr>c_productId := Some (IdStr [])\<rparr>) = orderPasses (c\<lparr>c_productId := None\<rparr>)"
  "orderPasses (c\<lparr>c_productName := Some []\<rparr>) = orderPasses (c\<lparr>c_productName := None\<rparr>)"
  by (rule ext, simp add: orderPasses_def numRejects_def strRejects_def)+

text \<open>
  C10. \<open>searchOrders\<close> treats a falsy criterion as absent: a bound of zero on the total, and
  an empty string as customer or product filter, give the result of the criteria without
  that entry, whatever the ledger holds.
\<close>

theorem searchOrders_falsy_criterion_absent:
  "searchOrders (c\<lparr>c_minTotal := Some 0\<rparr>) w = searchOrders (c\<lparr>c_minTotal := None\<rparr>) w \<and>
   searchOrders (c\<lparr>c_maxTotal := Some 0\<rparr>) w = searchOrders (c\<lparr>c_maxTotal := None\<rparr>) w \<and>
   searchOrders (c\<lparr>c_customerId := Some []\<rparr>) w = searchOrders (c\<lparr>c_customerId := None\<rparr>) w \<and>
   searchOrders (c\<lparr>c_customerName := Some []\<rparr>) w = searchOrders (c\<lparr>c_customerName := None\<rparr>) w \<and>
   searchOrders (c\<lparr>c_customerPhone := Some []\<rparr>) w = searchOrders (c\<lparr>c_customerPhone := None\<rparr>) w \<and>
   searchOrders (c\<lparr>c_productId := Some (IdStr [])\<rparr>) w = searchOrders (c\<lparr>c_productId := None\<rparr>) w \<and>
   searchOrders (c\<lparr>c_productName := Some []\<rparr>) w = searchOrders (c\<lparr>c_productName := None\<rparr>) w"
  by (simp add: searchOrders_def orderPasses_falsy)

theorem searchOrders_falsy_criterion_absent_witness:
  "searchOrders (noCriteria\<lparr>c_minTotal := Some 0\<rparr>) (initWorld Absent (Content [sampleOrder]))
     = [sampleOrder] \<and>
   searchOrders (noCriteria\<lparr>c_productName := Some []\<rparr>) (initWorld Absent (Content [sampleOrder]))
     = [sampleOrder]"
proof -
  have all: "searchOrders (noCriteria\<lparr>c_minTotal := None\<rparr>) (initWorld Absent (Content [sampleOrder]))
               = [sampleOrder]"
       "searchOrders (noCriteria\<lparr>c_productName := None\<rparr>) (initWorld Absent (Content [sampleOrder]))
               = [sampleOrder]"
    by (simp_all add: searchOrders_def orderPasses_def numRejects_def strRejects_def noCriteria_def
          loadOrders_def initWorld_def)
  from searchOrders_falsy_criterion_absent[of noCriteria "initWorld Absent (Content [sampleOrder])"] all
  show ?thesis by simp
qed

lemma findIndex_Some:
  "findIndex P xs = Some i \<Longrightarrow> i < length xs \<and> P (xs ! i) \<and> (\<forall>j<i. \<not> P (xs ! j))"
proof (induction xs arbitrary: i)
  case Nil
  then show ?case by simp
next
  case (Cons x xs)
  show ?case
  proof (cases "P x")
    case True
    with Cons.prems show ?thesis by simp
  next
    case False
    with Cons.prems obtain k where k: "findIndex P xs = Some k" "i = Suc k" by auto
    from Cons.IH[OF k(1)] False k(2) show ?thesis by (auto simp: less_Suc_eq_0_disj)
  qed
qed

lemma findIndex_None: "findIndex P xs = None \<longleftrightarrow> (\<forall>x\<in>set xs. \<not> P x)"
  by (induction xs) auto

lemma loadOrders_saved: "loadOrders (emit e ev x (saveOrders os w)) = os"
  by (simp add: emit_def saveOrders_def loadOrders_def)

lemma updateOrderStatus_found:
  assumes "findIndex (\<lambda>order. order_id order = orderId) (loadOrders w) = Some i"
  shows "updateOrderStatus e orderId newStatus actor w =
     (let o1 = (loadOrders w ! i)\<lparr>status := newStatus\<rparr>;
          o2 = (if newStatus = st_completed \<and> truthyStr actor
                then o1\<lparr>attendedBy := actor, attendedTimestamp := Some (now e)\<rparr> else o1)
      in (Some o2, emit e ''orderUpdated'' o2 (saveOrders ((loadOrders w)[i := o2]) w)))"
  using assms by (simp add: updateOrderStatus_def Let_def)

text \<open>
  C8. For an order id that is in the ledger, \<open>updateOrderStatus\<close> rewrites one entry, the
  first with that id. In it only the status changes, and \<open>attendedBy\<close> with
  \<open>attendedTimestamp\<close> when the status is \<open>completed\<close> and an actor is given; customer,
  product and payment snapshot, id, timestamp and notes stay. Every other entry of the
  ledger is as it was.
\<close>

theorem updateOrderStatus_changes_status_only:
  assumes "order \<in> set (loadOrders w)" and "order_id order = orderId"
  shows "\<exists>i old upd w'.
           updateOrderStatus e orderId newStatus actor w = (Some upd, w') \<and>
           i < length (loadOrders w) \<and> old = loadOrders w ! i \<and> order_id old = orderId \<and>
           loadOrders w' = (loadOrders w)[i := upd] \<and>
           (\<forall>j < length (loadOrders w). j \<noteq> i \<longrightarrow> loadOrders w' ! j = loadOrders w ! j) \<and>
           length (loadOrders w') = length (loadOrders w) \<and>
           customer upd = customer old \<and> product upd = product old \<and> payment upd = payment old \<and>
           order_id upd = order_id old \<and> timestamp upd = timestamp old \<and>
           order_notes upd = order_notes old \<and>
           status upd = newStatus \<and>
           (if newStatus = st_completed \<and> truthyStr actor
            then attendedBy upd = actor \<and> attendedTimestamp upd = Some (now e)
            else attendedBy upd = attendedBy old \<and> attendedTimestamp upd = attendedTimestamp old)"
proof -
  from assms have "findIndex (\<lambda>order. order_id order = orderId) (loadOrders w) \<noteq> None"
    by (auto simp: findIndex_None)
  then obtain i where i: "findIndex (\<lambda>order. order_id order = orderId) (loadOrders w) = Some i"
    by auto
  from findIndex_Some[OF i] have il: "i < length (loadOrders w)"
    and iid: "order_id (loadOrders w ! i) = orderId" by auto
  define old where "old = loadOrders w ! i"
  define o1 where "o1 = old\<lparr>status := newStatus\<rparr>"
  define upd where "upd = (if newStatus = st_completed \<and> truthyStr actor
                then o1\<lparr>attendedBy := actor, attendedTimestamp := Some (now e)\<rparr> else o1)"
  define w' where "w' = emit e ''orderUpdated'' upd (saveOrders ((loadOrders w)[i := upd]) w)"
  have run: "updateOrderStatus e orderId newStatus actor w = (Some upd, w')"
    unfolding updateOrderStatus_found[OF i] Let_def w'_def upd_def o1_def old_def by simp
  have lo: "loadOrders w' = (loadOrders w)[i := upd]"
    unfolding w'_def by (rule loadOrders_saved)
  have fields: "customer upd = customer old" "product upd = product old"
    "payment upd = payment old" "order_id upd = order_id old" "timestamp upd = timestamp old"
    "order_notes upd = order_notes old" "status upd = newStatus"
    by (simp_all add: upd_def o1_def)
  have att: "if newStatus = st_completed \<and> truthyStr actor
            then attendedBy upd = actor \<and> attendedTimestamp upd = Some (now e)
            else attendedBy upd = attendedBy old \<and> attendedTimestamp upd = attendedTimestamp old"
    by (simp add: upd_def o1_def)
  have others: "\<forall>j < length (loadOrders w). j \<noteq> i \<longrightarrow> loadOrders w' ! j = loadOrders w ! j"
    by (simp add: lo)
  have len: "length (loadOrders w') = length (loadOrders w)" by (simp add: lo)
  from run il iid lo others len fields att old_def show ?thesis by blast
qed

theorem updateOrderStatus_changes_status_only_witness:
  "sampleOrder \<in> set (loadOrders (initWorld Absent (Content [sampleOrder, sampleOrder\<lparr>order_id := ''u2''\<rparr>]))) \<and>
   order_id sampleOrder = ''u1'' \<and>
   (\<exists>upd w'.
      updateOrderStatus sampleEnv ''u1'' st_completed (Some ''ana'')
        (initWorld Absent (Content [sampleOrder, sampleOrder\<lparr>order_id := ''u2''\<rparr>])) = (Some upd, w') \<and>
      payment upd = payment sampleOrder \<and> status upd = st_completed \<and>
      attendedBy upd = Some ''ana'')"
proof -
  let ?w = "initWorld Absent (Content [sampleOrder, sampleOrder\<lparr>order_id := ''u2''\<rparr>])"
  have h1: "sampleOrder \<in> set (loadOrders ?w)" by (simp add: loadOrders_def initWorld_def)
  have h2: "order_id sampleOrder = ''u1''" by (simp add: sampleOrder_def)
  from updateOrderStatus_changes_status_only[OF h1 h2, of sampleEnv st_completed "Some ''ana''"]
  obtain i old upd w' where
    r: "updateOrderStatus sampleEnv ''u1'' st_completed (Some ''ana'') ?w = (Some upd, w')"
      "i < length (loadOrders ?w)" "old = loadOrders ?w ! i" "order_id old = ''u1''"
      "payment upd = payment old" "status upd = st_completed"
      "attendedBy upd = Some ''ana''"
    by auto
  have "i = 0"
  proof (rule ccontr)
    assume "i \<noteq> 0"
    with r(2) have "i = 1" by (simp add: loadOrders_def initWorld_def)
    with r(3,4) show False by (simp add: loadOrders_def initWorld_def)
  qed
  with r(3) have "old = sampleOrder" by (simp add: loadOrders_def initWorld_def)
  with r(5) have p: "payment upd = payment sampleOrder" by simp
  have "\<exists>upd w'.
      updateOrderStatus sampleEnv ''u1'' st_completed (Some ''ana'') ?w = (Some upd, w') \<and>
      payment upd = payment sampleOrder \<and> status upd = st_completed \<and>
      attendedBy upd = Some ''ana''"
    using r(1) p r(6) r(7) by (intro exI[of _ upd] exI[of _ w'] conjI)
  with h1 h2 show ?thesis by (intro conjI)
qed

section \<open>Session store: proofs\<close>

lemma sweepLoop_fst:
  "fst (sweepLoop e es acc w) = acc @ map fst (filter (expiredEntry e) es)"
  by (induction es arbitrary: acc w) (auto simp: expiredEntry_def split: option.splits)

lemma sweepLoop_sessions:
  "sessions (snd (sweepLoop e es acc w)) = sessions w \<and>
   sessionsFile (snd (sweepLoop e es acc w)) = sessionsFile w"
  by (induction es arbitrary: acc w)
     (auto simp: tryCatch_def sendMessage_def ret_def split: option.splits)

lemma sweepLoop_none:
  "filter (expiredEntry e) es = [] \<Longrightarrow> snd (sweepLoop e es acc w) = w"
  by (induction es arbitrary: acc w) (auto simp: expiredEntry_def split: option.splits if_splits)

lemma foldl_delete: "foldl (\<lambda>ss j. AList.delete j ss) ss ev = filter (\<lambda>p. fst p \<notin> set ev) ss"
proof (induction ev arbitrary: ss)
  case Nil then show ?case by simp
next
  case (Cons j ev)
  have "AList.delete j ss = filter (\<lambda>p. fst p \<noteq> j) ss"
    by (induction ss) auto
  then show ?case using Cons.IH[of "AList.delete j ss"] by (simp add: conj_commute)
qed

lemma evicted_none_left:
  "filter (expiredEntry e) (filter (\<lambda>p. fst p \<notin> fst ` set (filter (expiredEntry e) ss)) ss) = []"
  by (auto simp: filter_empty_conv image_iff)

lemma checkExpiredSessions_raises:
  "sessionsFile w = Malformed \<Longrightarrow> checkExpiredSessions e w = (None, w)"
  by (simp add: checkExpiredSessions_def seq_def andThen_def loadSessions_def)

lemma expiredEntry_cong:
  assumes "now e' = now e" and "inactivityTimeout e' = inactivityTimeout e"
  shows "expiredEntry e' = expiredEntry e"
  using assms by (intro ext) (simp add: expiredEntry_def split: option.splits)



lemma loadSessions_ok:
  assumes "sessionsFile w \<noteq> Malformed"
  shows "\<exists>wl. loadSessions w = (Some (), wl) \<and> sessions wl = knownSessions w \<and>
              sessionsFile wl = sessionsFile w"
  using assms by (cases "sessionsFile w") (simp_all add: loadSessions_def knownSessions_def)

lemma checkExpiredSessions_steps:
  assumes "loadSessions w = (Some (), wl)" and "sweepLoop e (sessions wl) [] wl = (ev, w1)"
  shows "checkExpiredSessions e w =
           (if ev = [] then (Some ev, w1\<lparr>sessions := filter (\<lambda>p. fst p \<notin> set ev) (sessions w1)\<rparr>)
            else (Some ev, w1\<lparr>sessions := filter (\<lambda>p. fst p \<notin> set ev) (sessions w1),
                              sessionsFile := Content (filter (\<lambda>p. fst p \<notin> set ev) (sessions w1))\<rparr>))"
  using assms
  by (simp add: checkExpiredSessions_def seq_def andThen_def foldl_delete saveSessions_def
        modify_def ret_def)

lemma checkExpiredSessions_runs:
  assumes "sessionsFile w \<noteq> Malformed"
  shows "fst (checkExpiredSessions e w) = Some (map fst (filter (expiredEntry e) (knownSessions w)))"
    and "sessions (snd (checkExpiredSessions e w)) =
           filter (\<lambda>p. fst p \<notin> fst ` set (filter (expiredEntry e) (knownSessions w))) (knownSessions w)"
    and "sessionsFile (snd (checkExpiredSessions e w)) =
           (if filter (expiredEntry e) (knownSessions w) = [] then sessionsFile w
            else Content (sessions (snd (checkExpiredSessions e w))))"
proof -
  from loadSessions_ok[OF assms] obtain wl where
    l: "loadSessions w = (Some (), wl)" "sessions wl = knownSessions w"
       "sessionsFile wl = sessionsFile w" by blast
  define ev where "ev = map fst (filter (expiredEntry e) (knownSessions w))"
  define w1 where "w1 = snd (sweepLoop e (sessions wl) [] wl)"
  have sw: "sweepLoop e (sessions wl) [] wl = (ev, w1)"
    by (simp add: prod_eq_iff sweepLoop_fst ev_def w1_def l(2))
  have s1: "sessions w1 = knownSessions w" "sessionsFile w1 = sessionsFile w"
    using sweepLoop_sessions[of e "sessions wl" "[]" wl] l(2,3) by (simp_all add: w1_def)
  note st = checkExpiredSessions_steps[OF l(1) sw]
  show "fst (checkExpiredSessions e w) = Some (map fst (filter (expiredEntry e) (knownSessions w)))"
    unfolding st by (simp add: ev_def)
  show "sessions (snd (checkExpiredSessions e w)) =
           filter (\<lambda>p. fst p \<notin> fst ` set (filter (expiredEntry e) (knownSessions w))) (knownSessions w)"
  proof -
    have "sessions (snd (checkExpiredSessions e w)) = filter (\<lambda>p. fst p \<notin> set ev) (knownSessions w)"
      unfolding st by (simp add: s1)
    then show ?thesis by (simp add: ev_def)
  qed
  show "sessionsFile (snd (checkExpiredSessions e w)) =
           (if filter (expiredEntry e) (knownSessions w) = [] then sessionsFile w
            else Content (sessions (snd (checkExpiredSessions e w))))"
    unfolding st by (simp add: ev_def s1)
qed

lemma checkExpiredSessions_quiet:
  assumes "sessionsFile w \<noteq> Malformed" "filter (expiredEntry e) (knownSessions w) = []"
    and "sessions w = knownSessions w"
  shows "checkExpiredSessions e w = (Some [], w)"
proof -
  from loadSessions_ok[OF assms(1)] obtain wl where
    l: "loadSessions w = (Some (), wl)" "sessions wl = knownSessions w"
       "sessionsFile wl = sessionsFile w" by blast
  have same: "w\<lparr>sessions := sessions w\<rparr> = w" by simp
  have wl: "wl = w"
    using l(1) assms(1,3) same
    by (cases "sessionsFile w") (auto simp: loadSessions_def knownSessions_def)
  have sw: "sweepLoop e (sessions wl) [] wl = ([], wl)"
    using assms(2) by (simp add: prod_eq_iff sweepLoop_fst sweepLoop_none l(2))
  show ?thesis unfolding checkExpiredSessions_steps[OF l(1) sw] by (simp add: wl)
qed

text \<open>
  C7. The idle-session sweep is idempotent. Run twice at the same clock reading and timeout,
  with nothing in between, the second run leaves the state as the first left it, evicts
  nobody and sends nothing; the first run evicted each expired sender once, and none of
  them is in the map any more. When the session file cannot be parsed both runs throw and
  nobody is evicted. (A session object has each sender once.)
\<close>

theorem checkExpiredSessions_idempotent:
  assumes "now e' = now e" and "inactivityTimeout e' = inactivityTimeout e"
    and "distinct (map fst (knownSessions w))"
  shows "let (r1, w1) = checkExpiredSessions e w; (r2, w2) = checkExpiredSessions e' w1 in
           w2 = w1 \<and>
           (case r1 of
              None \<Rightarrow> r2 = None
            | Some evicted \<Rightarrow>
                r2 = Some [] \<and> distinct evicted \<and>
                set evicted = fst ` {entry \<in> set (knownSessions w). expiredEntry e entry} \<and>
                (\<forall>j \<in> set evicted. map_of (sessions w1) j = None))"
proof (cases "sessionsFile w = Malformed")
  case True
  then show ?thesis by (simp add: checkExpiredSessions_raises)
next
  case False
  define w1 where "w1 = snd (checkExpiredSessions e w)"
  define ev where "ev = map fst (filter (expiredEntry e) (knownSessions w))"
  note r = checkExpiredSessions_runs[OF False, of e, folded w1_def ev_def]
  have first: "checkExpiredSessions e w = (Some ev, w1)"
    using r(1) by (simp add: w1_def prod_eq_iff)
  have s1: "sessions w1 = filter (\<lambda>p. fst p \<notin> set ev) (knownSessions w)"
    using r(2) by (simp add: ev_def)
  have nm: "sessionsFile w1 \<noteq> Malformed" using r(3) False by (simp split: if_splits)
  have known1: "knownSessions w1 = sessions w1"
  proof (cases "filter (expiredEntry e) (knownSessions w) = []")
    case True
    then have "sessionsFile w1 = sessionsFile w" "sessions w1 = knownSessions w"
      using r(3) s1 by (simp_all add: ev_def)
    then show ?thesis using False by (cases "sessionsFile w") (simp_all add: knownSessions_def)
  next
    case False
    then show ?thesis using r(3) by (simp add: knownSessions_def)
  qed
  have none: "filter (expiredEntry e') (knownSessions w1) = []"
    unfolding known1 s1 ev_def expiredEntry_cong[OF assms(1,2)]
    using evicted_none_left[of e "knownSessions w"] by simp
  have second: "checkExpiredSessions e' w1 = (Some [], w1)"
    by (rule checkExpiredSessions_quiet[OF nm none known1[symmetric]])
  have dist: "distinct ev"
    unfolding ev_def using assms(3) by (simp add: distinct_map_filter)
  have gone: "\<forall>j \<in> set ev. map_of (sessions w1) j = None"
    by (auto simp: s1 map_of_eq_None_iff)
  have setev: "set ev = fst ` {entry \<in> set (knownSessions w). expiredEntry e entry}"
    by (auto simp: ev_def)
  show ?thesis using first second dist gone setev by simp
qed

theorem checkExpiredSessions_idempotent_witness:
  "now sweepEnv = now sweepEnv \<and> inactivityTimeout sweepEnv = inactivityTimeout sweepEnv \<and>
   distinct (map fst (knownSessions sweepWorld)) \<and>
   fst (checkExpiredSessions sweepEnv sweepWorld) = Some [''a@s''] \<and>
   (let (r1, w1) = checkExpiredSessions sweepEnv sweepWorld;
        (r2, w2) = checkExpiredSessions sweepEnv w1
    in w2 = w1 \<and>
       (case r1 of
          None \<Rightarrow> r2 = None
        | Some evicted \<Rightarrow>
            r2 = Some [] \<and> distinct evicted \<and>
            set evicted = fst ` {entry \<in> set (knownSessions sweepWorld). expiredEntry sweepEnv entry} \<and>
            (\<forall>j \<in> set evicted. map_of (sessions w1) j = None)))"
proof -
  have h: "distinct (map fst (knownSessions sweepWorld))"
    by (simp add: knownSessions_def sweepWorld_def initWorld_def)
  have nm: "sessionsFile sweepWorld \<noteq> Malformed"
    by (simp add: sweepWorld_def initWorld_def)
  have ev: "fst (checkExpiredSessions sweepEnv sweepWorld) = Some [''a@s'']"
    unfolding checkExpiredSessions_runs(1)[OF nm]
    by (simp add: knownSessions_def sweepWorld_def initWorld_def expiredEntry_def sweepEnv_def
          sampleEnv_def)
  from checkExpiredSessions_idempotent[OF refl refl h, of sweepEnv] h ev show ?thesis by simp
qed

text \<open>
  C6. A session file that is there but is not JSON makes \<open>JSON.parse\<close> throw, and
  \<open>loadSessions\<close> has no handler: the error reaches its callers, the sweep and the handler
  of a message from a sender without a pending stage, which reject. The claim asks for the
  file to be taken as holding no sessions, as \<open>loadOrders\<close> does for the ledger.
\<close>

theorem loadSessions_malformed_throws:
  "loadSessions (initWorld Malformed Absent) = (None, initWorld Malformed Absent) \<and>
   fst (checkExpiredSessions sampleEnv (initWorld Malformed Absent)) = None \<and>
   fst (MessageHandler sampleEnv (textMsg ''57@s'' ''hola'') (initWorld Malformed Absent)) = None"
  by (simp add: loadSessions_def initWorld_def checkExpiredSessions_def seq_def andThen_def
        textMsg_def resolveStage_def truthyAwaiting_def endsWith_def)

section \<open>Catalog lookup: proofs\<close>

lemmas normalize_eval =
  normalizeText_def stripMarks_def toLowerCase_def lowerPairs_def basePairs_def

lemma showInt_small: "showInt 1 = ''1''" "showInt 2 = ''2''"
  by (simp_all add: showInt_def digitChar_def)

text \<open>
  C5, as stated, fails. With a catalog whose first entry has the query in its description
  only and whose second entry has it in its name, the lookup returns the first entry; a
  lookup by field priority returns the second.
\<close>

theorem findProduct_not_field_priority:
  "findProduct [tazaItem, cafeItem] ''CAFE'' = Some tazaItem \<and>
   findByFieldPriority [tazaItem, cafeItem] ''CAFE'' = Some cafeItem \<and> tazaItem \<noteq> cafeItem"
  by (simp add: findProduct_def findByFieldPriority_def productMatches_def tazaItem_def
        cafeItem_def normalize_eval showInt_small)

text \<open>
  C5, amended. The lookup normalises the query and the three fields of every entry
  (lower case, diacritics stripped) and returns the first entry in list order whose name,
  description or identifier contains the query; it finds nothing exactly when no entry has
  the query in any of the three. Which of the three fields matched does not rank entries.
\<close>

theorem findProduct_first_entry_any_field:
  "(findProduct data query = Some p \<longleftrightarrow>
      (\<exists>i < length data. p = data ! i \<and>
         (includesStr (normalizeText (StringOf (Nombre (data ! i)))) (normalizeText query) \<or>
          includesStr (normalizeText (StringOf (Descripcion (data ! i)))) (normalizeText query) \<or>
          includesStr (normalizeText (StringOfId (ID (data ! i)))) (normalizeText query)) \<and>
         (\<forall>j < i.
            \<not> includesStr (normalizeText (StringOf (Nombre (data ! j)))) (normalizeText query) \<and>
            \<not> includesStr (normalizeText (StringOf (Descripcion (data ! j)))) (normalizeText query) \<and>
            \<not> includesStr (normalizeText (StringOfId (ID (data ! j)))) (normalizeText query)))) \<and>
   (findProduct data query = None \<longleftrightarrow>
      (\<forall>item \<in> set data.
         \<not> includesStr (normalizeText (StringOf (Nombre item))) (normalizeText query) \<and>
         \<not> includesStr (normalizeText (StringOf (Descripcion item))) (normalizeText query) \<and>
         \<not> includesStr (normalizeText (StringOfId (ID item))) (normalizeText query)))"
  unfolding findProduct_def find_Some_iff find_None_iff productMatches_def by auto

theorem findProduct_first_entry_any_field_witness:
  "findProduct [cafeItem, tazaItem] ''CAFE'' = Some cafeItem \<and>
   (\<exists>i < length [cafeItem, tazaItem]. cafeItem = [cafeItem, tazaItem] ! i \<and>
      (includesStr (normalizeText (StringOf (Nombre ([cafeItem, tazaItem] ! i)))) (normalizeText ''CAFE'') \<or>
       includesStr (normalizeText (StringOf (Descripcion ([cafeItem, tazaItem] ! i)))) (normalizeText ''CAFE'') \<or>
       includesStr (normalizeText (StringOfId (ID ([cafeItem, tazaItem] ! i)))) (normalizeText ''CAFE'')) \<and>
      (\<forall>j < i.
         \<not> includesStr (normalizeText (StringOf (Nombre ([cafeItem, tazaItem] ! j)))) (normalizeText ''CAFE'') \<and>
         \<not> includesStr (normalizeText (StringOf (Descripcion ([cafeItem, tazaItem] ! j)))) (normalizeText ''CAFE'') \<and>
         \<not> includesStr (normalizeText (StringOfId (ID ([cafeItem, tazaItem] ! j)))) (normalizeText ''CAFE'')))"
proof -
  have ev: "findProduct [cafeItem, tazaItem] ''CAFE'' = Some cafeItem"
    by (simp add: findProduct_def productMatches_def tazaItem_def cafeItem_def normalize_eval
          showInt_small)
  note ex = findProduct_first_entry_any_field[of "[cafeItem, tazaItem]" "''CAFE''" cafeItem,
         THEN conjunct1, THEN iffD1, OF ev]
  from ev ex show ?thesis by (rule conjI)
qed

section \<open>Conversation engine: proofs\<close>

declare MessageHandler.simps [simp del]

lemmas io_defs = ret_def throw_def andThen_def seq_def tryCatch_def modify_def gets_def require_def
  sendMessage_def relayMessage_def

lemma MessageHandler_fromMe: "fromMe m \<Longrightarrow> MessageHandler e m w = (Some (), w)"
  by (simp add: MessageHandler.simps Let_def)

lemma MessageHandler_confirmation:
  "\<not> fromMe m \<Longrightarrow> resolveStage w (remoteJid m) = stage_confirmation \<Longrightarrow>
   MessageHandler e m w =
     confirmationBranch e m (remoteJid m) (w\<lparr>stageLog := stageLog w @ [(remoteJid m, stage_confirmation)]\<rparr>)"
  by (simp add: MessageHandler.simps Let_def)

lemma MessageHandler_payment:
  "\<not> fromMe m \<Longrightarrow> resolveStage w (remoteJid m) = stage_payment \<Longrightarrow>
   MessageHandler e m w =
     paymentBranch e m (remoteJid m) (w\<lparr>stageLog := stageLog w @ [(remoteJid m, stage_payment)]\<rparr>)"
  by (simp add: MessageHandler.simps Let_def)

lemma MessageHandler_product:
  "\<not> fromMe m \<Longrightarrow> resolveStage w (remoteJid m) = stage_product \<Longrightarrow>
   MessageHandler e m w =
     productBranch e m (remoteJid m) (w\<lparr>stageLog := stageLog w @ [(remoteJid m, stage_product)]\<rparr>)"
  by (simp add: MessageHandler.simps Let_def)

text \<open>The \<open>new\<close> stage, with the one recursive call resolved to the product stage.\<close>

lemma resolveStage_log [simp]: "resolveStage (w\<lparr>stageLog := l\<rparr>) s = resolveStage w s"
  by (simp add: resolveStage_def)

lemma MessageHandler_new:
  assumes "\<not> fromMe m" and "resolveStage w (remoteJid m) = stage_new"
  shows "MessageHandler e m w =
     (let sender = remoteJid m; w1 = w\<lparr>stageLog := stageLog w @ [(sender, stage_new)]\<rparr> in
      if \<not> endsWith sender ''@g.us'' \<and> sender \<noteq> [] then
        (case loadSessions w1 of
           (None, w2) \<Rightarrow> (None, w2)
         | (Some u, w2) \<Rightarrow>
             if sessionStale e (map_of (sessions w2) sender) then greetNew e m sender w2
             else if truthyStr (content m) then
               productBranch e m sender
                 (w2\<lparr>awaitingProduct := (awaitingProduct w2)(sender \<mapsto> True),
                     stageLog := stageLog w2 @ [(sender, stage_product)]\<rparr>)
             else (Some (), w2))
      else (Some (), w1))"
proof -
  have red: "MessageHandler e m (w2\<lparr>awaitingProduct := (awaitingProduct w2)(remoteJid m \<mapsto> True)\<rparr>) =
        productBranch e m (remoteJid m)
                 (w2\<lparr>awaitingProduct := (awaitingProduct w2)(remoteJid m \<mapsto> True),
                     stageLog := stageLog w2 @ [(remoteJid m, stage_product)]\<rparr>)"
    if "loadSessions (w\<lparr>stageLog := stageLog w @ [(remoteJid m, stage_new)]\<rparr>) = (r, w2)" for r w2
  proof -
    from that have "awaitingConfirmation w2 = awaitingConfirmation w" "awaitingPayment w2 = awaitingPayment w"
      by (auto simp: loadSessions_def split: jsonFile.splits)
    with assms(2) have "resolveStage (w2\<lparr>awaitingProduct := (awaitingProduct w2)(remoteJid m \<mapsto> True)\<rparr>) (remoteJid m) = stage_product"
      by (simp add: resolveStage_def split: if_splits)
    from MessageHandler_product[OF assms(1) this] show ?thesis by simp
  qed
  show ?thesis
    using assms red
    by (subst MessageHandler.simps) (auto simp: Let_def split: prod.splits option.splits)
qed


lemma preservesD: "preserves P m \<Longrightarrow> P w \<Longrightarrow> P (snd (m w))"
  by (simp add: preserves_def)

lemma preserves_ret: "preserves P (ret x)"
  by (simp add: preserves_def ret_def)

lemma preserves_throw: "preserves P throw"
  by (simp add: preserves_def throw_def)

lemma preserves_gets: "preserves P (gets f)"
  by (simp add: preserves_def gets_def)

lemma preserves_require: "preserves P (require b)"
  by (simp add: preserves_def require_def ret_def throw_def)

lemma preserves_andThen:
  "preserves P m \<Longrightarrow> (\<And>x. preserves P (k x)) \<Longrightarrow> preserves P (andThen m k)"
  by (auto simp: preserves_def andThen_def split: prod.splits option.splits)

lemma preserves_seq: "preserves P m \<Longrightarrow> preserves P k \<Longrightarrow> preserves P (seq m k)"
  by (simp add: seq_def preserves_andThen)

lemma preserves_tryCatch: "preserves P m \<Longrightarrow> preserves P h \<Longrightarrow> preserves P (tryCatch m h)"
  by (auto simp: preserves_def tryCatch_def split: prod.splits option.splits)

lemma preserves_modify: "(\<And>w. P w \<Longrightarrow> P (g w)) \<Longrightarrow> preserves P (modify g)"
  by (simp add: preserves_def modify_def)

lemma preserves_if: "preserves P a \<Longrightarrow> preserves P b \<Longrightarrow> preserves P (if c then a else b)"
  by simp

lemma preserves_case_option:
  "preserves P a \<Longrightarrow> (\<And>x. preserves P (b x)) \<Longrightarrow> preserves P (case v of None \<Rightarrow> a | Some x \<Rightarrow> b x)"
  by (cases v) simp_all

lemma preserves_sendMessage:
  "(\<And>w x. P w \<Longrightarrow> P (w\<lparr>outbox := x\<rparr>)) \<Longrightarrow> preserves P (sendMessage e j msg)"
  by (simp add: preserves_def sendMessage_def)

lemma preserves_relayMessage:
  "(\<And>w x. P w \<Longrightarrow> P (w\<lparr>outbox := x\<rparr>)) \<Longrightarrow> preserves P (relayMessage e j)"
  by (simp add: preserves_def relayMessage_def)

lemma preserves_loadSessions:
  "(\<And>w x. P w \<Longrightarrow> P (w\<lparr>sessions := x\<rparr>)) \<Longrightarrow> preserves P loadSessions"
  by (simp add: preserves_def loadSessions_def split: jsonFile.splits)

lemma preserves_saveSessions:
  "(\<And>w x. P w \<Longrightarrow> P (w\<lparr>sessionsFile := x\<rparr>)) \<Longrightarrow> preserves P saveSessions"
  by (simp add: saveSessions_def preserves_modify)

lemma preserves_setForm:
  "(\<And>w. P w \<Longrightarrow> P (w\<lparr>awaitingConfirmation := (awaitingConfirmation w)(s \<mapsto> AForm f)\<rparr>)) \<Longrightarrow>
   preserves P (setForm s f)"
  by (simp add: setForm_def preserves_modify)

lemma preserves_createOrder:
  "(\<And>w x. P w \<Longrightarrow> P (w\<lparr>ordersFile := x\<rparr>)) \<Longrightarrow> (\<And>w x. P w \<Longrightarrow> P (w\<lparr>emitted := x\<rparr>)) \<Longrightarrow>
   preserves P (\<lambda>w. case createOrder e d w of (newOrder, w') \<Rightarrow> (Some newOrder, w'))"
  by (simp add: preserves_def createOrder_def Let_def saveOrders_def emit_def)

lemmas preserves_intros =
  preserves_ret preserves_throw preserves_gets preserves_require preserves_andThen preserves_seq
  preserves_tryCatch preserves_if preserves_case_option preserves_sendMessage
  preserves_relayMessage preserves_loadSessions preserves_saveSessions preserves_setForm
  preserves_createOrder preserves_modify

text \<open>No branch writes the stage log.\<close>

lemma log_forwardReceipt: "preserves (\<lambda>w. stageLog w = l) (forwardReceipt e t i)"
  unfolding forwardReceipt_def by (intro preserves_intros) simp_all

lemma log_paymentBranch: "preserves (\<lambda>w. stageLog w = l) (paymentBranch e m s)"
  unfolding paymentBranch_def Let_def
  by (intro preserves_intros log_forwardReceipt) (simp_all add: clearSender_def)

lemma log_productBranch: "preserves (\<lambda>w. stageLog w = l) (productBranch e m s)"
  unfolding productBranch_def readData_def
  by (intro preserves_intros) (simp_all split: jsonFile.splits add: preserves_intros)

lemma log_cityStep: "preserves (\<lambda>w. stageLog w = l) (cityStep e m s f)"
  unfolding cityStep_def Let_def postCalculate_def
  by (intro preserves_intros) (simp_all add: preserves_def)

lemma log_finalStep: "preserves (\<lambda>w. stageLog w = l) (finalStep e m s f)"
  unfolding finalStep_def Let_def
  by (intro preserves_intros) simp_all

lemma log_formStep: "preserves (\<lambda>w. stageLog w = l) (formStep e m s f)"
  by (cases "stage f")
     (auto simp: formStep_def log_cityStep log_finalStep intro!: preserves_intros)

lemma log_simpleConfirmation: "preserves (\<lambda>w. stageLog w = l) (simpleConfirmation e m s)"
  unfolding simpleConfirmation_def
  by (intro preserves_intros) simp_all

lemma log_confirmationBranch: "preserves (\<lambda>w. stageLog w = l) (confirmationBranch e m s)"
  using log_formStep log_simpleConfirmation
  by (auto simp: preserves_def confirmationBranch_def split: option.splits awaiting.splits)

lemma log_greetNew: "preserves (\<lambda>w. stageLog w = l) (greetNew e m s)"
  unfolding greetNew_def
  by (intro preserves_intros) simp_all

lemmas handler_defs = confirmationBranch_def formStep_def cityStep_def finalStep_def
  simpleConfirmation_def productBranch_def paymentBranch_def greetNew_def resolveStage_def
  truthyAwaiting_def sessionStale_def readData_def forwardReceipt_def paymentOrderData_def
  createOrder_def loadOrders_def saveOrders_def emit_def clearSender_def targetJidOf_def
  loadSessions_def saveSessions_def setForm_def postCalculate_def isSi_def isNo_def
  trimOrEmpty_def trim_def isWhiteSpace_def orZero_def orNA_def formatted_def beforeAt_def
  endsWith_def paymentPath_def emptyFormData_def emptyProduct_def

text \<open>
  C1. The payment stage writes \<open>total\<close> as \<open>0\<close> when the price of the product is falsy,
  and still writes the delivery cost. In the purchase below the customer was told to pay
  5000 (price not available, delivery 5000, total 5000: the final-confirmation stage adds the
  delivery cost to a missing price), and the order in the ledger has total 0, product price 0
  and delivery cost 5000, so the total is not the sum of the two.
\<close>

theorem payment_total_ignores_delivery_when_price_missing:
  "map payment (loadOrders (run purchaseNullPrice (initWorld Absent Absent))) =
     [\<lparr>pay_total = 0, pay_productPrice = 0, pay_deliveryCost = 5000, pay_imagePath = Some []\<rparr>] \<and>
   (''57@s'', PaymentInstructions None (Some 5000) 5000)
     \<in> set (outbox (run purchaseNullPrice (initWorld Absent Absent)))"
  by (simp add: purchaseNullPrice_def run_def initWorld_def sampleEnv_def textMsg_def imageMsg_def
        io_defs handler_defs findProduct_def productMatches_def normalize_eval showInt_def
        digitChar_def Let_def MessageHandler.simps)

lemma loadSessions_cases:
  "loadSessions w = (None, w') \<longleftrightarrow> sessionsFile w = Malformed \<and> w' = w"
  "loadSessions w = (Some u, w') \<longleftrightarrow> sessionsFile w \<noteq> Malformed \<and> w' = w\<lparr>sessions := knownSessions w\<rparr>"
  by (cases "sessionsFile w"; auto simp: loadSessions_def knownSessions_def)+

text \<open>
  C9. One inbound message makes the handler run once, or twice when it re-dispatches from
  the \<open>new\<close> stage: every run logs the stage it resolved, and the log grows by no entry (a
  message of the bot itself), by one entry, or by \<open>new\<close> followed by \<open>product\<close>. The second
  run resolves to the product stage, because \<open>awaitingProduct[sender]\<close> was set before the
  call, and the product stage does not call the handler. The handler is total.
\<close>

theorem MessageHandler_redispatches_at_most_once:
  "stageLog (snd (MessageHandler e m w)) =
     stageLog w @
       (if fromMe m then []
        else if redispatches e m w
             then [(remoteJid m, stage_new), (remoteJid m, stage_product)]
             else [(remoteJid m, resolveStage w (remoteJid m))])"
proof (cases "fromMe m")
  case True
  then show ?thesis by (simp add: MessageHandler_fromMe)
next
  case False
  show ?thesis
  proof (cases "resolveStage w (remoteJid m)")
    case stage_confirmation
    have "stageLog (snd (confirmationBranch e m (remoteJid m)
             (w\<lparr>stageLog := stageLog w @ [(remoteJid m, stage_confirmation)]\<rparr>))) =
          stageLog w @ [(remoteJid m, stage_confirmation)]"
      by (rule preservesD[OF log_confirmationBranch]) simp
    with False stage_confirmation show ?thesis
      by (simp add: MessageHandler_confirmation redispatches_def)
  next
    case stage_payment
    have "stageLog (snd (paymentBranch e m (remoteJid m)
             (w\<lparr>stageLog := stageLog w @ [(remoteJid m, stage_payment)]\<rparr>))) =
          stageLog w @ [(remoteJid m, stage_payment)]"
      by (rule preservesD[OF log_paymentBranch]) simp
    with False stage_payment show ?thesis
      by (simp add: MessageHandler_payment redispatches_def)
  next
    case stage_product
    have "stageLog (snd (productBranch e m (remoteJid m)
             (w\<lparr>stageLog := stageLog w @ [(remoteJid m, stage_product)]\<rparr>))) =
          stageLog w @ [(remoteJid m, stage_product)]"
      by (rule preservesD[OF log_productBranch]) simp
    with False stage_product show ?thesis
      by (simp add: MessageHandler_product redispatches_def)
  next
    case stage_new
    let ?s = "remoteJid m"
    let ?w1 = "w\<lparr>stageLog := stageLog w @ [(?s, stage_new)]\<rparr>"
    show ?thesis
    proof (cases "\<not> endsWith ?s ''@g.us'' \<and> ?s \<noteq> []")
      case False
      with \<open>\<not> fromMe m\<close> stage_new show ?thesis
        by (auto simp: MessageHandler_new Let_def redispatches_def)
    next
      case chat: True
      show ?thesis
      proof (cases "sessionsFile w = Malformed")
        case True
        then have "loadSessions ?w1 = (None, ?w1)" by (simp add: loadSessions_cases)
        with \<open>\<not> fromMe m\<close> stage_new chat True show ?thesis
          by (simp add: MessageHandler_new Let_def redispatches_def)
      next
        case ok: False
        let ?w2 = "?w1\<lparr>sessions := knownSessions ?w1\<rparr>"
        have ld: "loadSessions ?w1 = (Some (), ?w2)" using ok by (simp add: loadSessions_cases)
        have ks: "knownSessions ?w1 = knownSessions w"
          by (simp add: knownSessions_def split: jsonFile.splits)
        show ?thesis
        proof (cases "sessionStale e (map_of (knownSessions w) ?s)")
          case True
          have "stageLog (snd (greetNew e m ?s ?w2)) = stageLog w @ [(?s, stage_new)]"
            by (rule preservesD[OF log_greetNew]) simp
          with \<open>\<not> fromMe m\<close> stage_new chat ld ks True show ?thesis
            by (simp add: MessageHandler_new Let_def redispatches_def)
        next
          case fresh: False
          show ?thesis
          proof (cases "truthyStr (content m)")
            case True
            have "stageLog (snd (productBranch e m ?s
                     (?w2\<lparr>awaitingProduct := (awaitingProduct ?w2)(?s \<mapsto> True),
                          stageLog := stageLog ?w2 @ [(?s, stage_product)]\<rparr>))) =
                  stageLog w @ [(?s, stage_new), (?s, stage_product)]"
              by (rule preservesD[OF log_productBranch]) simp
            with \<open>\<not> fromMe m\<close> stage_new chat ld ks fresh True ok show ?thesis
              by (simp add: MessageHandler_new Let_def redispatches_def)
          next
            case False
            with \<open>\<not> fromMe m\<close> stage_new chat ld ks fresh show ?thesis
              by (simp add: MessageHandler_new Let_def redispatches_def)
          qed
        qed
      qed
    qed
  qed
qed

text \<open>A branch for one sender leaves the entries of every other sender alone.\<close>

lemma others_forwardReceipt: "preserves (\<lambda>w. pending w j = t) (forwardReceipt e to i)"
  unfolding forwardReceipt_def by (intro preserves_intros) (simp_all add: pending_def)

lemma others_paymentBranch: "j \<noteq> s \<Longrightarrow> preserves (\<lambda>w. pending w j = t) (paymentBranch e m s)"
  unfolding paymentBranch_def Let_def
  by (intro preserves_intros others_forwardReceipt) (simp_all add: clearSender_def pending_def)

lemma others_productBranch: "j \<noteq> s \<Longrightarrow> preserves (\<lambda>w. pending w j = t) (productBranch e m s)"
  unfolding productBranch_def readData_def
  by (intro preserves_intros) (simp_all split: jsonFile.splits add: preserves_intros pending_def)

lemma others_cityStep: "j \<noteq> s \<Longrightarrow> preserves (\<lambda>w. pending w j = t) (cityStep e m s f)"
  unfolding cityStep_def Let_def postCalculate_def
  by (intro preserves_intros) (simp_all add: preserves_def pending_def)

lemma others_finalStep: "j \<noteq> s \<Longrightarrow> preserves (\<lambda>w. pending w j = t) (finalStep e m s f)"
  unfolding finalStep_def Let_def
  by (intro preserves_intros) (simp_all add: pending_def)

lemma others_send: "preserves (\<lambda>w. pending w j = t) (sendMessage e s msg)"
  by (intro preserves_intros) (simp_all add: pending_def)

lemma others_ask:
  "j \<noteq> s \<Longrightarrow> preserves (\<lambda>w. pending w j = t) (seq (setForm s f') (sendMessage e s msg))"
  by (intro preserves_intros) (simp_all add: pending_def)

lemma others_formStep: "j \<noteq> s \<Longrightarrow> preserves (\<lambda>w. pending w j = t) (formStep e m s f)"
  by (cases "stage f")
     (auto simp: formStep_def others_cityStep others_finalStep others_send others_ask)

lemma others_simpleConfirmation:
  "j \<noteq> s \<Longrightarrow> preserves (\<lambda>w. pending w j = t) (simpleConfirmation e m s)"
  unfolding simpleConfirmation_def
  by (intro preserves_intros) (simp_all add: pending_def)

lemma others_confirmationBranch:
  "j \<noteq> s \<Longrightarrow> preserves (\<lambda>w. pending w j = t) (confirmationBranch e m s)"
  using others_formStep[of j s t] others_simpleConfirmation[of j s t]
  by (auto simp: preserves_def confirmationBranch_def split: option.splits awaiting.splits)

lemma others_greetNew: "j \<noteq> s \<Longrightarrow> preserves (\<lambda>w. pending w j = t) (greetNew e m s)"
  unfolding greetNew_def
  by (intro preserves_intros) (simp_all add: pending_def)

text \<open>The handler without its recursion; what every branch keeps, the handler keeps.\<close>

lemma MessageHandler_unfold:
  "MessageHandler e m w =
     (if fromMe m then (Some (), w)
      else
        let s = remoteJid m;
            w1 = w\<lparr>stageLog := stageLog w @ [(s, resolveStage w s)]\<rparr>
        in case resolveStage w s of
             stage_confirmation \<Rightarrow> confirmationBranch e m s w1
           | stage_product \<Rightarrow> productBranch e m s w1
           | stage_payment \<Rightarrow> paymentBranch e m s w1
           | stage_new \<Rightarrow>
               if \<not> endsWith s ''@g.us'' \<and> s \<noteq> [] then
                 if sessionsFile w = Malformed then (None, w1)
                 else
                   let w2 = w1\<lparr>sessions := knownSessions w\<rparr> in
                   if sessionStale e (map_of (knownSessions w) s) then greetNew e m s w2
                   else if truthyStr (content m) then
                     productBranch e m s
                       (w2\<lparr>awaitingProduct := (awaitingProduct w2)(s \<mapsto> True),
                           stageLog := stageLog w2 @ [(s, stage_product)]\<rparr>)
                   else (Some (), w2)
               else (Some (), w1))"
proof (cases "fromMe m")
  case True
  then show ?thesis by (simp add: MessageHandler_fromMe)
next
  case False
  have ks: "knownSessions (w\<lparr>stageLog := l\<rparr>) = knownSessions w" for l
    by (simp add: knownSessions_def split: jsonFile.splits)
  show ?thesis
  proof (cases "resolveStage w (remoteJid m)")
    case stage_new
    show ?thesis
    proof (cases "sessionsFile w = Malformed")
      case True
      then have "loadSessions (w\<lparr>stageLog := l\<rparr>) = (None, w\<lparr>stageLog := l\<rparr>)" for l
        by (simp add: loadSessions_cases)
      with False stage_new True show ?thesis
        by (simp add: MessageHandler_new Let_def)
    next
      case ok: False
      then have "loadSessions (w\<lparr>stageLog := l\<rparr>) =
                   (Some (), w\<lparr>stageLog := l, sessions := knownSessions w\<rparr>)" for l
        by (simp add: loadSessions_cases ks)
      with False stage_new ok show ?thesis
        by (simp add: MessageHandler_new Let_def)
    qed
  qed (use False in \<open>simp_all add: MessageHandler_confirmation MessageHandler_payment
         MessageHandler_product Let_def\<close>)
qed

lemma MessageHandler_preserves:
  assumes P: "P w"
    and br: "preserves P (confirmationBranch e m (remoteJid m))"
            "preserves P (paymentBranch e m (remoteJid m))"
            "preserves P (productBranch e m (remoteJid m))"
            "preserves P (greetNew e m (remoteJid m))"
    and ins: "\<And>w x. P w \<Longrightarrow> P (w\<lparr>stageLog := x\<rparr>)" "\<And>w x. P w \<Longrightarrow> P (w\<lparr>sessions := x\<rparr>)"
             "\<And>w. P w \<Longrightarrow> P (w\<lparr>awaitingProduct := (awaitingProduct w)(remoteJid m \<mapsto> True)\<rparr>)"
  shows "P (snd (MessageHandler e m w))"
proof -
  let ?s = "remoteJid m"
  let ?w1 = "w\<lparr>stageLog := stageLog w @ [(?s, resolveStage w ?s)]\<rparr>"
  let ?w2 = "?w1\<lparr>sessions := knownSessions w\<rparr>"
  let ?w3 = "?w2\<lparr>awaitingProduct := (awaitingProduct ?w2)(?s \<mapsto> True),
                 stageLog := stageLog ?w2 @ [(?s, stage_product)]\<rparr>"
  have w1: "P ?w1" by (rule ins(1)[OF P])
  have w2: "P ?w2" by (rule ins(2)[OF w1])
  have w3: "P ?w3" by (intro ins(1) ins(3) w2)
  note b = preservesD[OF br(1) w1] preservesD[OF br(2) w1] preservesD[OF br(3) w1]
    preservesD[OF br(4) w2] preservesD[OF br(3) w3]
  show ?thesis
  proof (cases "fromMe m")
    case True
    then show ?thesis using P by (simp add: MessageHandler_fromMe)
  next
    case False
    show ?thesis
    proof (cases "resolveStage w ?s")
      case stage_confirmation
      with False b(1) show ?thesis by (simp add: MessageHandler_confirmation)
    next
      case stage_payment
      with False b(2) show ?thesis by (simp add: MessageHandler_payment)
    next
      case stage_product
      with False b(3) show ?thesis by (simp add: MessageHandler_product)
    next
      case stage_new
      with False w1 w2 b(4,5) show ?thesis by (simp add: MessageHandler_unfold Let_def)
    qed
  qed
qed

lemma MessageHandler_others:
  assumes "j \<noteq> remoteJid m"
  shows "pending (snd (MessageHandler e m w)) j = pending w j"
  using assms
  by (intro MessageHandler_preserves[where P = "\<lambda>w'. pending w' j = pending w j"]
        others_confirmationBranch others_paymentBranch others_productBranch others_greetNew)
     (simp_all add: pending_def)

text \<open>The entries of the sender, stage by stage.\<close>

lemma atMostOne_pending:
  "pending w' j = pending w j \<Longrightarrow> atMostOne w' j = atMostOne w j"
  by (simp add: pending_def atMostOne_def)

lemma resolveStage_iff:
  "resolveStage w s = stage_confirmation \<longleftrightarrow> truthyAwaiting (awaitingConfirmation w s)"
  "resolveStage w s = stage_payment \<longleftrightarrow>
     \<not> truthyAwaiting (awaitingConfirmation w s) \<and> awaitingPayment w s = Some True"
  "resolveStage w s = stage_product \<longleftrightarrow>
     \<not> truthyAwaiting (awaitingConfirmation w s) \<and> awaitingPayment w s \<noteq> Some True \<and>
     awaitingProduct w s = Some True"
  "resolveStage w s = stage_new \<longleftrightarrow>
     \<not> truthyAwaiting (awaitingConfirmation w s) \<and> awaitingPayment w s \<noteq> Some True \<and>
     awaitingProduct w s \<noteq> Some True"
  by (auto simp: resolveStage_def)

lemma inForm_send: "preserves (inForm s p q) (sendMessage e s msg)"
  by (intro preserves_intros) (simp_all add: inForm_def)

lemma inForm_ask: "preserves (inForm s p q) (seq (setForm s f') (sendMessage e s msg))"
  by (intro preserves_intros) (simp_all add: inForm_def truthyAwaiting_def)

lemma inForm_cityStep: "preserves (inForm s p q) (cityStep e m s f)"
  unfolding cityStep_def Let_def postCalculate_def
  by (intro preserves_intros) (simp_all add: preserves_def inForm_def truthyAwaiting_def)

lemma amo_finalStep:
  assumes "awaitingPayment w s \<noteq> Some True" and "awaitingProduct w s \<noteq> Some True"
  shows "atMostOne (snd (finalStep e m s f w)) s"
  using assms
  by (auto simp: finalStep_def io_defs atMostOne_def truthyAwaiting_def Let_def
           split: option.splits)

lemma amo_simpleConfirmation:
  assumes "awaitingPayment w s \<noteq> Some True" and "awaitingProduct w s \<noteq> Some True"
  shows "atMostOne (snd (simpleConfirmation e m s w)) s"
  using assms
  by (auto simp: simpleConfirmation_def setForm_def io_defs atMostOne_def truthyAwaiting_def)

lemma amo_formStep:
  assumes "truthyAwaiting (awaitingConfirmation w s)"
    and "awaitingPayment w s \<noteq> Some True" and "awaitingProduct w s \<noteq> Some True"
  shows "atMostOne (snd (formStep e m s f w)) s"
proof (cases "stage f = finalConfirmation")
  case True
  then show ?thesis using amo_finalStep[OF assms(2,3)] by (simp add: formStep_def)
next
  case False
  have "preserves (inForm s (awaitingPayment w s) (awaitingProduct w s)) (formStep e m s f)"
    using False
    by (cases "stage f") (auto simp: formStep_def inForm_cityStep inForm_send inForm_ask)
  from preservesD[OF this] assms(1)
  have "inForm s (awaitingPayment w s) (awaitingProduct w s) (snd (formStep e m s f w))"
    by (simp add: inForm_def)
  with assms(2,3) show ?thesis by (simp add: inForm_def atMostOne_def)
qed

lemma amo_confirmationBranch:
  assumes "atMostOne w s" and "truthyAwaiting (awaitingConfirmation w s)"
  shows "atMostOne (snd (confirmationBranch e m s w)) s"
proof -
  from assms have np: "awaitingPayment w s \<noteq> Some True" "awaitingProduct w s \<noteq> Some True"
    by (auto simp: atMostOne_def)
  show ?thesis
    using amo_formStep[OF assms(2) np] amo_simpleConfirmation[OF np]
    by (simp add: confirmationBranch_def split: option.splits awaiting.splits)
qed

lemma cleared_forwardReceipt: "preserves (keptOrCleared s t) (forwardReceipt e to i)"
  unfolding forwardReceipt_def by (intro preserves_intros) (simp_all add: keptOrCleared_def pending_def)

lemma cleared_paymentBranch: "preserves (keptOrCleared s t) (paymentBranch e m s)"
  unfolding paymentBranch_def Let_def
  by (intro preserves_intros cleared_forwardReceipt)
     (simp_all add: clearSender_def keptOrCleared_def pending_def)

lemma amo_paymentBranch:
  assumes "atMostOne w s"
  shows "atMostOne (snd (paymentBranch e m s w)) s"
proof -
  have "keptOrCleared s (pending w s) (snd (paymentBranch e m s w))"
    by (rule preservesD[OF cleared_paymentBranch]) (simp add: keptOrCleared_def)
  with assms show ?thesis
    by (auto simp: keptOrCleared_def pending_def atMostOne_def truthyAwaiting_def)
qed

lemma notPaying_found:
  "preserves (notPaying s)
     (seq (modify (\<lambda>w. w\<lparr>selectedProduct := (selectedProduct w)(s \<mapsto> found)\<rparr>))
     (seq (sendMessage e s (ProductCard found))
     (seq (tryCatch
             (if truthyStr (orNull (ImagenURL found))
              then seq (require (productImageOk e)) (sendMessage e s ProductImage)
              else ret ())
             (ret ()))
     (seq (modify (\<lambda>w. w\<lparr>awaitingProduct := (awaitingProduct w)(s \<mapsto> False)\<rparr>))
     (seq (modify (\<lambda>w. w\<lparr>awaitingConfirmation := (awaitingConfirmation w)(s \<mapsto> ABool True)\<rparr>))
          (sendMessage e s ConfirmProductQuestion))))))"
  by (auto simp: preserves_def io_defs notPaying_def atMostOne_def truthyAwaiting_def)

lemma preserves_readData: "preserves P (readData e)"
  by (simp add: readData_def preserves_ret preserves_throw split: jsonFile.splits)

lemma notPaying_productBranch: "preserves (notPaying s) (productBranch e m s)"
  unfolding productBranch_def
  by (intro notPaying_found preserves_readData preserves_intros)
     (simp_all add: notPaying_def atMostOne_def)

lemma notPaying_greetNew: "preserves (\<lambda>w. \<not> truthyAwaiting (awaitingConfirmation w s) \<and> awaitingPayment w s \<noteq> Some True) (greetNew e m s)"
  unfolding greetNew_def
  by (intro preserves_intros) simp_all

lemma MessageHandler_sender:
  assumes "atMostOne w (remoteJid m)"
  shows "atMostOne (snd (MessageHandler e m w)) (remoteJid m)"
proof (cases "fromMe m")
  case True
  with assms show ?thesis by (simp add: MessageHandler_fromMe)
next
  case False
  let ?s = "remoteJid m"
  have log: "atMostOne (w'\<lparr>stageLog := l\<rparr>) j = atMostOne w' j" for w' l j
    by (simp add: atMostOne_def)
  show ?thesis
  proof (cases "resolveStage w ?s")
    case stage_confirmation
    then have "truthyAwaiting (awaitingConfirmation w ?s)" by (simp add: resolveStage_iff)
    with assms False stage_confirmation show ?thesis
      by (simp add: MessageHandler_confirmation amo_confirmationBranch log)
  next
    case stage_payment
    with assms False show ?thesis
      by (simp add: MessageHandler_payment amo_paymentBranch log)
  next
    case stage_product
    let ?w1 = "w\<lparr>stageLog := stageLog w @ [(?s, stage_product)]\<rparr>"
    from stage_product assms have "notPaying ?s ?w1"
      by (simp add: resolveStage_iff notPaying_def log)
    from preservesD[OF notPaying_productBranch this] False stage_product show ?thesis
      by (simp add: MessageHandler_product notPaying_def)
  next
    case stage_new
    then have idle: "\<not> truthyAwaiting (awaitingConfirmation w ?s)" "awaitingPayment w ?s \<noteq> Some True"
      by (simp_all add: resolveStage_iff)
    let ?w1 = "w\<lparr>stageLog := stageLog w @ [(?s, stage_new)]\<rparr>"
    let ?w2 = "?w1\<lparr>sessions := knownSessions w\<rparr>"
    let ?w3 = "?w2\<lparr>awaitingProduct := (awaitingProduct ?w2)(?s \<mapsto> True),
                   stageLog := stageLog ?w2 @ [(?s, stage_product)]\<rparr>"
    have "\<not> truthyAwaiting (awaitingConfirmation ?w2 ?s) \<and> awaitingPayment ?w2 ?s \<noteq> Some True"
      using idle by simp
    from preservesD[OF notPaying_greetNew this]
    have g: "atMostOne (snd (greetNew e m ?s ?w2)) ?s" by (simp add: atMostOne_def)
    have "notPaying ?s ?w3" using idle by (simp add: notPaying_def atMostOne_def)
    from preservesD[OF notPaying_productBranch this]
    have p: "atMostOne (snd (productBranch e m ?s ?w3)) ?s" by (simp add: notPaying_def)
    from False stage_new assms g p show ?thesis
      by (simp add: MessageHandler_unfold Let_def atMostOne_def)
  qed
qed

lemma MessageHandler_atMostOne:
  assumes "\<And>j. atMostOne w j"
  shows "atMostOne (snd (MessageHandler e m w)) j"
proof (cases "j = remoteJid m")
  case True
  then show ?thesis using MessageHandler_sender[OF assms] by simp
next
  case False
  from atMostOne_pending[OF MessageHandler_others[OF False]] assms show ?thesis by simp
qed

lemma sweepLoop_awaiting:
  "awaitingConfirmation (snd (sweepLoop e es acc w)) = awaitingConfirmation w \<and>
   awaitingPayment (snd (sweepLoop e es acc w)) = awaitingPayment w \<and>
   awaitingProduct (snd (sweepLoop e es acc w)) = awaitingProduct w"
  by (induction es arbitrary: acc w)
     (auto simp: tryCatch_def sendMessage_def ret_def split: option.splits)

lemma sweepLoop_pending: "pending (snd (sweepLoop e es acc w)) j = pending w j"
  by (simp add: pending_def sweepLoop_awaiting)

lemma checkExpiredSessions_pending: "pending (snd (checkExpiredSessions e w)) j = pending w j"
proof (cases "sessionsFile w = Malformed")
  case True
  then show ?thesis by (simp add: checkExpiredSessions_raises)
next
  case False
  from loadSessions_ok[OF False] obtain wl where
    l: "loadSessions w = (Some (), wl)" by blast
  then have wl: "pending wl j = pending w j"
    by (auto simp: loadSessions_def pending_def split: jsonFile.splits)
  obtain ev w1 where sw: "sweepLoop e (sessions wl) [] wl = (ev, w1)" by (cases "sweepLoop e (sessions wl) [] wl")
  then have "pending w1 j = pending wl j" using sweepLoop_pending[of e "sessions wl" "[]" wl j] by simp
  with wl show ?thesis
    unfolding checkExpiredSessions_steps[OF l sw] by (simp add: pending_def)
qed

lemma step_atMostOne:
  assumes "\<And>j. atMostOne w j"
  shows "atMostOne (step ev w) j"
proof (cases ev)
  case (Inbound e m)
  then show ?thesis using MessageHandler_atMostOne[OF assms] by simp
next
  case (Sweep e)
  then show ?thesis using atMostOne_pending[OF checkExpiredSessions_pending[of e w j]] assms
    by simp
qed

lemma run_snoc: "run (events @ [ev]) w = step ev (run events w)"
  by (simp add: run_def)


theorem MessageHandler_redispatches_at_most_once_witness:
  "redispatches sampleEnv (textMsg ''57@s'' ''cafe'') freshWorld \<and>
   stageLog (snd (MessageHandler sampleEnv (textMsg ''57@s'' ''cafe'') freshWorld)) =
     [(''57@s'', stage_new), (''57@s'', stage_product)]"
proof -
  have r: "redispatches sampleEnv (textMsg ''57@s'' ''cafe'') freshWorld"
    by (simp add: redispatches_def textMsg_def freshWorld_def initWorld_def resolveStage_def
          truthyAwaiting_def endsWith_def knownSessions_def sessionStale_def sampleEnv_def)
  have l: "stageLog freshWorld = []" "remoteJid (textMsg ''57@s'' ''cafe'') = ''57@s''"
    "\<not> fromMe (textMsg ''57@s'' ''cafe'')"
    by (simp_all add: freshWorld_def initWorld_def textMsg_def)
  from MessageHandler_redispatches_at_most_once[of sampleEnv "textMsg ''57@s'' ''cafe''" freshWorld] r l
  show ?thesis by simp
qed


lemma cityStep_quote_fails:
  assumes "calculate e (address f) (barrio f) (Some (trimOrEmpty (content m))) = None"
  shows "cityStep e m s f w =
           sendMessage e s DeliveryCostError
             (w\<lparr>awaitingConfirmation :=
                  (awaitingConfirmation w)(s \<mapsto> AForm (f\<lparr>city := Some (trimOrEmpty (content m))\<rparr>))\<rparr>)"
  using assms
  by (simp add: cityStep_def Let_def postCalculate_def setForm_def seq_def andThen_def
        tryCatch_def modify_def)

lemma cityStep_quote_ok:
  assumes "calculate e (address f) (barrio f) (Some (trimOrEmpty (content m))) = Some res"
    and "mapImageOk e" and "\<forall>msg. sendOk e s msg"
  shows "cityStep e m s f w =
           (Some (),
            w\<lparr>awaitingConfirmation :=
                 (awaitingConfirmation w)(s \<mapsto> AForm
                    (f\<lparr>city := Some (trimOrEmpty (content m)), deliveryCost := Some (costo res),
                       mapImagePath := Some (imagen res), stage := finalConfirmation\<rparr>)),
              outbox := outbox w @
                 [(s, LocationImage),
                  (s, FinalSummary
                        (f\<lparr>city := Some (trimOrEmpty (content m)), deliveryCost := Some (costo res),
                           mapImagePath := Some (imagen res), stage := finalConfirmation\<rparr>)
                        (case selectedProduct w s of None \<Rightarrow> None
                         | Some p \<Rightarrow>
                             Some (Nombre p, formatted (orNull (Precio p)), costo res,
                                   if truthyNum (orNull (Precio p))
                                   then orZero (orNull (Precio p)) + costo res
                                   else costo res)))]\<rparr>)"
  using assms
  by (simp add: cityStep_def Let_def postCalculate_def setForm_def io_defs)

text \<open>
  C2. The form is at \<open>addressCity\<close> and the call to the delivery-cost service fails. Then
  the entry of the sender still is a form at stage \<open>addressCity\<close>, with name, id number,
  barrio and address (and the delivery cost) as they were; at most the error notice went out.
  A next message of the sender is taken as the city again: when the quote now succeeds (and
  the map image and the messages go through), the quote is asked for the retained address
  and barrio with the new city, the form moves to \<open>finalConfirmation\<close> with that cost, and
  what is sent is the map and the summary, not a question for barrio or address.
\<close>

theorem quote_failure_keeps_stage_and_fields:
  assumes "\<not> fromMe m" and "awaitingConfirmation w (remoteJid m) = Some (AForm f)"
    and "stage f = addressCity"
    and "calculate e (address f) (barrio f) (Some (trimOrEmpty (content m))) = None"
    and "\<not> fromMe m2" and "remoteJid m2 = remoteJid m"
    and "calculate e2 (address f) (barrio f) (Some (trimOrEmpty (content m2))) = Some res"
    and "mapImageOk e2" and "\<forall>msg. sendOk e2 (remoteJid m) msg"
  shows "let w' = snd (MessageHandler e m w); w'' = snd (MessageHandler e2 m2 w') in
         (\<exists>f'. awaitingConfirmation w' (remoteJid m) = Some (AForm f') \<and>
               stage f' = addressCity \<and> name f' = name f \<and> idNumber f' = idNumber f \<and>
               barrio f' = barrio f \<and> address f' = address f \<and>
               deliveryCost f' = deliveryCost f) \<and>
         (outbox w' = outbox w \<or> outbox w' = outbox w @ [(remoteJid m, DeliveryCostError)]) \<and>
         (\<exists>f'' summary. awaitingConfirmation w'' (remoteJid m) = Some (AForm f'') \<and>
               stage f'' = finalConfirmation \<and> name f'' = name f \<and> idNumber f'' = idNumber f \<and>
               barrio f'' = barrio f \<and> address f'' = address f \<and>
               city f'' = Some (trimOrEmpty (content m2)) \<and>
               deliveryCost f'' = Some (costo res) \<and>
               outbox w'' = outbox w' @ [(remoteJid m, LocationImage),
                                         (remoteJid m, FinalSummary f'' summary)])"
proof -
  let ?s = "remoteJid m"
  let ?fc = "f\<lparr>city := Some (trimOrEmpty (content m))\<rparr>"
  let ?w1 = "w\<lparr>stageLog := stageLog w @ [(?s, stage_confirmation)]\<rparr>"
  let ?w1c = "?w1\<lparr>awaitingConfirmation := (awaitingConfirmation ?w1)(?s \<mapsto> AForm ?fc)\<rparr>"
  have st: "resolveStage w ?s = stage_confirmation"
    using assms(2) by (simp add: resolveStage_def truthyAwaiting_def)
  have first: "MessageHandler e m w = sendMessage e ?s DeliveryCostError ?w1c"
    using assms(1-4) st
    by (simp add: MessageHandler_confirmation confirmationBranch_def formStep_def
          cityStep_quote_fails)
  define w' where "w' = snd (MessageHandler e m w)"
  have w'c: "awaitingConfirmation w' ?s = Some (AForm ?fc)"
    and w'o: "outbox w' = outbox w \<or> outbox w' = outbox w @ [(?s, DeliveryCostError)]"
    unfolding w'_def first by (simp_all add: sendMessage_def)
  have st2: "resolveStage w' (remoteJid m2) = stage_confirmation"
    using w'c assms(6) by (simp add: resolveStage_def truthyAwaiting_def)
  let ?w2 = "w'\<lparr>stageLog := stageLog w' @ [(?s, stage_confirmation)]\<rparr>"
  have q2: "calculate e2 (address ?fc) (barrio ?fc) (Some (trimOrEmpty (content m2))) = Some res"
    using assms(7) by simp
  note c = cityStep_quote_ok[OF q2 assms(8,9), of ?w2]
  have second: "MessageHandler e2 m2 w' = cityStep e2 m2 ?s ?fc ?w2"
    using assms(3,5,6) st2 w'c
    by (simp add: MessageHandler_confirmation confirmationBranch_def formStep_def)
  show ?thesis
    unfolding Let_def w'_def[symmetric] second c
    using w'c w'o assms(3) by simp
qed

lemma isSi_iff: "isSi c \<longleftrightarrow> c \<in> yesVariants"
  by (auto simp: isSi_def yesVariants_def)

lemma isNo_iff: "isNo c \<longleftrightarrow> c \<in> noVariants"
  by (auto simp: isNo_def noVariants_def)

lemma simple_point:
  assumes "\<not> fromMe m" and "awaitingConfirmation w (remoteJid m) = Some (ABool True)"
  shows "MessageHandler e m w =
    (let s = remoteJid m; w1 = w\<lparr>stageLog := stageLog w @ [(s, stage_confirmation)]\<rparr> in
     if content m \<in> yesVariants then
       sendMessage e s AskName
         (w1\<lparr>awaitingConfirmation := (awaitingConfirmation w)(s \<mapsto> AForm
               \<lparr>stage = basicName, name = None, idNumber = None, address = None, barrio = None,
                city = None, deliveryCost = None, mapImagePath = None\<rparr>)\<rparr>)
     else if content m \<in> noVariants then
       sendMessage e s AskProductAgain
         (w1\<lparr>awaitingProduct := (awaitingProduct w)(s \<mapsto> True),
             awaitingConfirmation := (awaitingConfirmation w)(s := None)\<rparr>)
     else sendMessage e s OnlySiNoRetry w1)"
proof -
  have st: "resolveStage w (remoteJid m) = stage_confirmation"
    using assms(2) by (simp add: resolveStage_def truthyAwaiting_def)
  show ?thesis
    using assms
    by (simp add: MessageHandler_confirmation[OF assms(1) st] confirmationBranch_def
          simpleConfirmation_def isSi_iff isNo_iff Let_def setForm_def seq_def andThen_def
          modify_def)
qed

lemma basic_point:
  assumes "\<not> fromMe m" and "awaitingConfirmation w (remoteJid m) = Some (AForm f)"
    and "stage f = basicConfirmation"
  shows "MessageHandler e m w =
    (let s = remoteJid m; w1 = w\<lparr>stageLog := stageLog w @ [(s, stage_confirmation)]\<rparr> in
     if content m \<in> yesVariants then
       sendMessage e s AskBarrio
         (w1\<lparr>awaitingConfirmation :=
               (awaitingConfirmation w)(s \<mapsto> AForm (f\<lparr>stage := addressBarrio\<rparr>))\<rparr>)
     else if content m \<in> noVariants then
       sendMessage e s RestartAskName
         (w1\<lparr>awaitingConfirmation :=
               (awaitingConfirmation w)(s \<mapsto> AForm (f\<lparr>stage := basicName\<rparr>))\<rparr>)
     else sendMessage e s OnlySiNo w1)"
proof -
  have st: "resolveStage w (remoteJid m) = stage_confirmation"
    using assms(2) by (simp add: resolveStage_def truthyAwaiting_def)
  show ?thesis
    using assms
    by (simp add: MessageHandler_confirmation[OF assms(1) st] confirmationBranch_def
          formStep_def isSi_iff isNo_iff Let_def setForm_def seq_def andThen_def modify_def)
qed

lemma final_point:
  assumes "\<not> fromMe m" and "awaitingConfirmation w (remoteJid m) = Some (AForm f)"
    and "stage f = finalConfirmation"
  shows "MessageHandler e m w =
    (let s = remoteJid m; w1 = w\<lparr>stageLog := stageLog w @ [(s, stage_confirmation)]\<rparr> in
     if content m \<in> yesVariants then
       (let price = (case selectedProduct w s of None \<Rightarrow> None | Some p \<Rightarrow> orNull (Precio p));
            total = (if truthyNum price then orZero price + orZero (deliveryCost f)
                     else orZero (deliveryCost f));
            instructions = PaymentInstructions (formatted price) (formatted (deliveryCost f)) total;
            wq = w1\<lparr>formData := (formData w)(s \<mapsto>
                       \<lparr>fd_name = name f, fd_idNumber = idNumber f, fd_address = address f,
                        fd_barrio = barrio f, fd_city = city f,
                        fd_deliveryCost = deliveryCost f\<rparr>)\<rparr>
        in if qrReadable e \<and> sendOk e s instructions
           then (Some (),
                 wq\<lparr>outbox := outbox w @ [(s, instructions)],
                    awaitingPayment := (awaitingPayment w)(s \<mapsto> True),
                    awaitingConfirmation := (awaitingConfirmation w)(s := None)\<rparr>)
           else (None, wq))
     else if content m \<in> noVariants then
       sendMessage e s TryAgainAskProduct
         (w1\<lparr>awaitingConfirmation := (awaitingConfirmation w)(s := None),
             selectedProduct := (selectedProduct w)(s := None),
             formData := (formData w)(s := None),
             awaitingProduct := (awaitingProduct w)(s \<mapsto> True)\<rparr>)
     else sendMessage e s OnlySiNo w1)"
proof -
  have st: "resolveStage w (remoteJid m) = stage_confirmation"
    using assms(2) by (simp add: resolveStage_def truthyAwaiting_def)
  show ?thesis
    using assms
    by (simp add: MessageHandler_confirmation[OF assms(1) st] confirmationBranch_def
          formStep_def finalStep_def isSi_iff isNo_iff Let_def io_defs)
qed

lemmas run_eval = purchaseNullPrice_def run_def initWorld_def sampleEnv_def textMsg_def
  imageMsg_def io_defs handler_defs findProduct_def productMatches_def normalize_eval
  showInt_def digitChar_def Let_def MessageHandler.simps

lemma shownWorld_pending:
  "awaitingConfirmation shownWorld ''57@s'' = Some (ABool True)"
  by (simp add: shownWorld_def run_eval)

lemma cityWorld_form:
  "awaitingConfirmation cityWorld ''57@s'' = Some (AForm cityForm)"
  by (simp add: cityWorld_def cityForm_def run_eval)

subsection \<open>Two handlers of one sender\<close>

lemmas async_defs = fulfil_def sync_def awaitSend_def finalStepAsync_def formStepAsync_def
  simpleConfirmationAsync_def confirmationAsync_def MessageHandlerAsync_def

lemma summaryWorld_pending:
  "pending summaryWorld ''57@s'' =
     (Some (AForm \<lparr>stage = finalConfirmation, name = Some ''Ana'', idNumber = Some ''123'',
                   address = Some ''Calle 1'', barrio = Some ''Centro'', city = Some ''Bogota'',
                   deliveryCost = Some 5000, mapImagePath = Some ''/images/map_1.png''\<rparr>),
      None, Some False)"
  by (simp add: summaryWorld_def pending_def run_eval)

text \<open>
  A handler that is left to run alone, its one send settling before anything else happens,
  does what \<^const>\<open>MessageHandler\<close> does.
\<close>

lemma finalStepAsync_alone:
  "(case finalStepAsync e m s f w of (p, w1) \<Rightarrow> settle [0] [p] w1) =
     ([if fst (finalStep e m s f w) = None then Rejected else Fulfilled], snd (finalStep e m s f w))"
  by (simp add: finalStepAsync_def finalStep_def fulfil_def sync_def awaitSend_def io_defs
        sendMessage_def Let_def)

lemma simpleConfirmationAsync_alone:
  "(case simpleConfirmationAsync e m s w of (p, w1) \<Rightarrow> settle [0] [p] w1) =
     ([if fst (simpleConfirmation e m s w) = None then Rejected else Fulfilled],
      snd (simpleConfirmation e m s w))"
  by (simp add: simpleConfirmationAsync_def simpleConfirmation_def fulfil_def sync_def awaitSend_def
        io_defs sendMessage_def setForm_def Let_def)

lemma formStepAsync_alone:
  assumes "formStepAsync e m s f = Some body"
  shows "(case body w of (p, w1) \<Rightarrow> settle [0] [p] w1) =
     ([if fst (formStep e m s f w) = None then Rejected else Fulfilled], snd (formStep e m s f w))"
proof (cases "stage f = finalConfirmation")
  case True
  with assms have "body = finalStepAsync e m s f" "formStep e m s f = finalStep e m s f"
    by (simp_all add: formStepAsync_def formStep_def)
  then show ?thesis by (simp only: finalStepAsync_alone)
next
  case False
  with assms show ?thesis
    by (cases "stage f")
       (auto simp: formStepAsync_def formStep_def fulfil_def sync_def awaitSend_def
          io_defs sendMessage_def setForm_def Let_def)
qed

lemma confirmationAsync_alone:
  assumes "confirmationAsync e m s w = Some (p, w1)"
  shows "settle [0] [p] w1 =
     ([if fst (confirmationBranch e m s w) = None then Rejected else Fulfilled],
      snd (confirmationBranch e m s w))"
proof (cases "awaitingConfirmation w s")
  case None
  with assms have "simpleConfirmationAsync e m s w = (p, w1)"
    "confirmationBranch e m s w = simpleConfirmation e m s w"
    by (simp_all add: confirmationAsync_def confirmationBranch_def)
  with simpleConfirmationAsync_alone[of e m s w] show ?thesis by (simp del: settle.simps)
next
  case (Some a)
  show ?thesis
  proof (cases a)
    case (ABool b)
    with Some assms have "simpleConfirmationAsync e m s w = (p, w1)"
      "confirmationBranch e m s w = simpleConfirmation e m s w"
      by (simp_all add: confirmationAsync_def confirmationBranch_def)
    with simpleConfirmationAsync_alone[of e m s w] show ?thesis by (simp del: settle.simps)
  next
    case (AForm f)
    with Some assms obtain body where b: "formStepAsync e m s f = Some body" "body w = (p, w1)"
      by (auto simp: confirmationAsync_def split: option.splits)
    from AForm Some have "confirmationBranch e m s w = formStep e m s f w"
      by (simp add: confirmationBranch_def)
    with formStepAsync_alone[OF b(1), of w] b(2) show ?thesis by (simp del: settle.simps)
  qed
qed

lemma MessageHandlerAsync_alone:
  assumes "MessageHandlerAsync e m w = Some (p, w1)"
  shows "settle [0] [p] w1 =
           ([if fst (MessageHandler e m w) = None then Rejected else Fulfilled],
            snd (MessageHandler e m w))"
proof (cases "fromMe m")
  case True
  with assms show ?thesis by (simp add: MessageHandlerAsync_def MessageHandler_fromMe)
next
  case False
  with assms have c: "resolveStage w (remoteJid m) = stage_confirmation"
    by (simp add: MessageHandlerAsync_def Let_def split: StageType.splits)
  with False assms have
    "confirmationAsync e m (remoteJid m)
       (w\<lparr>stageLog := stageLog w @ [(remoteJid m, stage_confirmation)]\<rparr>) = Some (p, w1)"
    by (simp add: MessageHandlerAsync_def Let_def)
  from confirmationAsync_alone[OF this] MessageHandler_confirmation[OF False c, of e]
  show ?thesis by (simp del: settle.simps)
qed

text \<open>The two messages of \<^const>\<open>siThenNo\<close>, handled one after the other.\<close>

lemma summaryWorld_one_by_one:
  "pending (run [Inbound sampleEnv (textMsg ''57@s'' ''si''), Inbound sampleEnv (textMsg ''57@s'' ''no'')]
              summaryWorld) ''57@s'' = (None, Some True, Some False)"
  by (simp add: summaryWorld_def pending_def run_eval)


text \<open>
  C4, as stated, fails. The sender has been shown a product and answers \<open>Si\<close> with an
  accented i, which lower-cased and stripped of its accent is \<open>si\<close>: the entry stays \<open>true\<close>
  and the bot asks again for si or no. The answer \<open>si\<close> starts the form.
\<close>

theorem accented_si_is_not_a_yes:
  "normalizeText accentedSi = ''si'' \<and>
   awaitingConfirmation (step (Inbound sampleEnv (textMsg ''57@s'' accentedSi)) shownWorld) ''57@s''
     = Some (ABool True) \<and>
   outbox (step (Inbound sampleEnv (textMsg ''57@s'' accentedSi)) shownWorld)
     = outbox shownWorld @ [(''57@s'', OnlySiNoRetry)] \<and>
   awaitingConfirmation (step (Inbound sampleEnv (textMsg ''57@s'' ''si'')) shownWorld) ''57@s''
     = Some (AForm \<lparr>stage = basicName, name = None, idNumber = None, address = None,
                     barrio = None, city = None, deliveryCost = None, mapImagePath = None\<rparr>)"
proof -
  have n: "normalizeText accentedSi = ''si''" by (simp add: accentedSi_def normalize_eval)
  have nf: "\<not> fromMe (textMsg ''57@s'' c)" "remoteJid (textMsg ''57@s'' c) = ''57@s''"
    "content (textMsg ''57@s'' c) = Some c" for c
    by (simp_all add: textMsg_def)
  have p: "awaitingConfirmation shownWorld (remoteJid (textMsg ''57@s'' c)) = Some (ABool True)" for c
    by (simp add: nf shownWorld_pending)
  have so: "sendOk sampleEnv a b" for a b by (simp add: sampleEnv_def)
  show ?thesis
    by (simp add: n[unfolded accentedSi_def] simple_point[OF nf(1) p] nf Let_def
          yesVariants_def noVariants_def accentedSi_def sendMessage_def so shownWorld_pending)
qed

text \<open>
  C4, amended. At each of the three confirmation points the content of the message is
  compared as it came, with no trimming, lower-casing or accent stripping, against the four
  spellings \<open>si\<close>, \<open>Si\<close>, \<open>SI\<close>, \<open>sI\<close> and \<open>no\<close>, \<open>No\<close>, \<open>NO\<close>, \<open>nO\<close>. One of the first four
  takes the yes transition (the form starts at \<open>basicName\<close>; the form moves to
  \<open>addressBarrio\<close>; the data are kept for the payment and, once the QR image is read and
  sent, the sender awaits the payment). One of the last four takes the no transition (back
  to the product question; back to \<open>basicName\<close>; form and product dropped, back to the product
  question). Any other content only sends the prompt for si or no again: nothing but the
  stage log and the outbox changes.
\<close>

theorem confirmation_points_compare_verbatim:
  assumes "\<not> fromMe m"
  shows
   "(awaitingConfirmation w (remoteJid m) = Some (ABool True) \<longrightarrow>
     MessageHandler e m w =
      (let s = remoteJid m; w1 = w\<lparr>stageLog := stageLog w @ [(s, stage_confirmation)]\<rparr> in
       if content m \<in> yesVariants then
         sendMessage e s AskName
           (w1\<lparr>awaitingConfirmation := (awaitingConfirmation w)(s \<mapsto> AForm
                 \<lparr>stage = basicName, name = None, idNumber = None, address = None, barrio = None,
                  city = None, deliveryCost = None, mapImagePath = None\<rparr>)\<rparr>)
       else if content m \<in> noVariants then
         sendMessage e s AskProductAgain
           (w1\<lparr>awaitingProduct := (awaitingProduct w)(s \<mapsto> True),
               awaitingConfirmation := (awaitingConfirmation w)(s := None)\<rparr>)
       else sendMessage e s OnlySiNoRetry w1)) \<and>
    (\<forall>f. awaitingConfirmation w (remoteJid m) = Some (AForm f) \<and> stage f = basicConfirmation \<longrightarrow>
     MessageHandler e m w =
      (let s = remoteJid m; w1 = w\<lparr>stageLog := stageLog w @ [(s, stage_confirmation)]\<rparr> in
       if content m \<in> yesVariants then
         sendMessage e s AskBarrio
           (w1\<lparr>awaitingConfirmation :=
                 (awaitingConfirmation w)(s \<mapsto> AForm (f\<lparr>stage := addressBarrio\<rparr>))\<rparr>)
       else if content m \<in> noVariants then
         sendMessage e s RestartAskName
           (w1\<lparr>awaitingConfirmation :=
                 (awaitingConfirmation w)(s \<mapsto> AForm (f\<lparr>stage := basicName\<rparr>))\<rparr>)
       else sendMessage e s OnlySiNo w1)) \<and>
    (\<forall>f. awaitingConfirmation w (remoteJid m) = Some (AForm f) \<and> stage f = finalConfirmation \<longrightarrow>
     MessageHandler e m w =
      (let s = remoteJid m; w1 = w\<lparr>stageLog := stageLog w @ [(s, stage_confirmation)]\<rparr> in
       if content m \<in> yesVariants then
         (let price = (case selectedProduct w s of None \<Rightarrow> None | Some p \<Rightarrow> orNull (Precio p));
              total = (if truthyNum price then orZero price + orZero (deliveryCost f)
                       else orZero (deliveryCost f));
              instructions = PaymentInstructions (formatted price) (formatted (deliveryCost f)) total;
              wq = w1\<lparr>formData := (formData w)(s \<mapsto>
                         \<lparr>fd_name = name f, fd_idNumber = idNumber f, fd_address = address f,
                          fd_barrio = barrio f, fd_city = city f,
                          fd_deliveryCost = deliveryCost f\<rparr>)\<rparr>
          in if qrReadable e \<and> sendOk e s instructions
             then (Some (),
                   wq\<lparr>outbox := outbox w @ [(s, instructions)],
                      awaitingPayment := (awaitingPayment w)(s \<mapsto> True),
                      awaitingConfirmation := (awaitingConfirmation w)(s := None)\<rparr>)
             else (None, wq))
       else if content m \<in> noVariants then
         sendMessage e s TryAgainAskProduct
           (w1\<lparr>awaitingConfirmation := (awaitingConfirmation w)(s := None),
               selectedProduct := (selectedProduct w)(s := None),
               formData := (formData w)(s := None),
               awaitingProduct := (awaitingProduct w)(s \<mapsto> True)\<rparr>)
       else sendMessage e s OnlySiNo w1))"
proof (intro conjI allI impI)
  assume "awaitingConfirmation w (remoteJid m) = Some (ABool True)"
  then show "MessageHandler e m w =
      (let s = remoteJid m; w1 = w\<lparr>stageLog := stageLog w @ [(s, stage_confirmation)]\<rparr> in
       if content m \<in> yesVariants then
         sendMessage e s AskName
           (w1\<lparr>awaitingConfirmation := (awaitingConfirmation w)(s \<mapsto> AForm
                 \<lparr>stage = basicName, name = None, idNumber = None, address = None, barrio = None,
                  city = None, deliveryCost = None, mapImagePath = None\<rparr>)\<rparr>)
       else if content m \<in> noVariants then
         sendMessage e s AskProductAgain
           (w1\<lparr>awaitingProduct := (awaitingProduct w)(s \<mapsto> True),
               awaitingConfirmation := (awaitingConfirmation w)(s := None)\<rparr>)
       else sendMessage e s OnlySiNoRetry w1)"
    by (rule simple_point[OF assms])
next
  fix f
  assume "awaitingConfirmation w (remoteJid m) = Some (AForm f) \<and> stage f = basicConfirmation"
  then show "MessageHandler e m w =
      (let s = remoteJid m; w1 = w\<lparr>stageLog := stageLog w @ [(s, stage_confirmation)]\<rparr> in
       if content m \<in> yesVariants then
         sendMessage e s AskBarrio
           (w1\<lparr>awaitingConfirmation :=
                 (awaitingConfirmation w)(s \<mapsto> AForm (f\<lparr>stage := addressBarrio\<rparr>))\<rparr>)
       else if content m \<in> noVariants then
         sendMessage e s RestartAskName
           (w1\<lparr>awaitingConfirmation :=
                 (awaitingConfirmation w)(s \<mapsto> AForm (f\<lparr>stage := basicName\<rparr>))\<rparr>)
       else sendMessage e s OnlySiNo w1)"
    using basic_point[OF assms, of w f e] by blast
next
  fix f
  assume a: "awaitingConfirmation w (remoteJid m) = Some (AForm f) \<and> stage f = finalConfirmation"
  show "MessageHandler e m w =
      (let s = remoteJid m; w1 = w\<lparr>stageLog := stageLog w @ [(s, stage_confirmation)]\<rparr> in
       if content m \<in> yesVariants then
         (let price = (case selectedProduct w s of None \<Rightarrow> None | Some p \<Rightarrow> orNull (Precio p));
              total = (if truthyNum price then orZero price + orZero (deliveryCost f)
                       else orZero (deliveryCost f));
              instructions = PaymentInstructions (formatted price) (formatted (deliveryCost f)) total;
              wq = w1\<lparr>formData := (formData w)(s \<mapsto>
                         \<lparr>fd_name = name f, fd_idNumber = idNumber f, fd_address = address f,
                          fd_barrio = barrio f, fd_city = city f,
                          fd_deliveryCost = deliveryCost f\<rparr>)\<rparr>
          in if qrReadable e \<and> sendOk e s instructions
             then (Some (),
                   wq\<lparr>outbox := outbox w @ [(s, instructions)],
                      awaitingPayment := (awaitingPayment w)(s \<mapsto> True),
                      awaitingConfirmation := (awaitingConfirmation w)(s := None)\<rparr>)
             else (None, wq))
       else if content m \<in> noVariants then
         sendMessage e s TryAgainAskProduct
           (w1\<lparr>awaitingConfirmation := (awaitingConfirmation w)(s := None),
               selectedProduct := (selectedProduct w)(s := None),
               formData := (formData w)(s := None),
               awaitingProduct := (awaitingProduct w)(s \<mapsto> True)\<rparr>)
       else sendMessage e s OnlySiNo w1)"
    by (rule final_point[OF assms conjunct1[OF a] conjunct2[OF a]])
qed

theorem confirmation_points_compare_verbatim_witness:
  "\<not> fromMe (textMsg ''57@s'' accentedSi) \<and>
   awaitingConfirmation shownWorld (remoteJid (textMsg ''57@s'' accentedSi)) = Some (ABool True) \<and>
   MessageHandler sampleEnv (textMsg ''57@s'' accentedSi) shownWorld =
     sendMessage sampleEnv ''57@s'' OnlySiNoRetry
       (shownWorld\<lparr>stageLog := stageLog shownWorld @ [(''57@s'', stage_confirmation)]\<rparr>)"
proof -
  have h1: "\<not> fromMe (textMsg ''57@s'' accentedSi)" by (simp add: textMsg_def)
  have h2: "awaitingConfirmation shownWorld (remoteJid (textMsg ''57@s'' accentedSi)) = Some (ABool True)"
    by (simp add: textMsg_def shownWorld_pending)
  from confirmation_points_compare_verbatim[OF h1, of shownWorld sampleEnv, THEN conjunct1, THEN mp, OF h2] h1 h2
  show ?thesis
    by (simp add: Let_def textMsg_def accentedSi_def yesVariants_def noVariants_def)
qed

theorem quote_failure_keeps_stage_and_fields_witness:
  "\<not> fromMe (textMsg ''57@s'' ''Bogota'') \<and>
   awaitingConfirmation cityWorld (remoteJid (textMsg ''57@s'' ''Bogota'')) = Some (AForm cityForm) \<and>
   stage cityForm = addressCity \<and>
   calculate failingQuoteEnv (address cityForm) (barrio cityForm)
     (Some (trimOrEmpty (content (textMsg ''57@s'' ''Bogota'')))) = None \<and>
   \<not> fromMe (textMsg ''57@s'' ''Soledad'') \<and>
   remoteJid (textMsg ''57@s'' ''Soledad'') = remoteJid (textMsg ''57@s'' ''Bogota'') \<and>
   calculate sampleEnv (address cityForm) (barrio cityForm)
     (Some (trimOrEmpty (content (textMsg ''57@s'' ''Soledad'')))) =
       Some \<lparr>costo = 5000, imagen = ''/images/map_1.png''\<rparr> \<and>
   mapImageOk sampleEnv \<and> (\<forall>msg. sendOk sampleEnv (remoteJid (textMsg ''57@s'' ''Bogota'')) msg) \<and>
   (let w' = snd (MessageHandler failingQuoteEnv (textMsg ''57@s'' ''Bogota'') cityWorld);
        w'' = snd (MessageHandler sampleEnv (textMsg ''57@s'' ''Soledad'') w')
    in (\<exists>f'. awaitingConfirmation w' ''57@s'' = Some (AForm f') \<and> stage f' = addressCity \<and>
              barrio f' = Some ''Centro'' \<and> address f' = Some ''Calle 1'') \<and>
       (\<exists>f'' summary. awaitingConfirmation w'' ''57@s'' = Some (AForm f'') \<and>
              stage f'' = finalConfirmation \<and> barrio f'' = Some ''Centro'' \<and>
              address f'' = Some ''Calle 1'' \<and> city f'' = Some ''Soledad'' \<and>
              deliveryCost f'' = Some 5000))"
proof -
  let ?m = "textMsg ''57@s'' ''Bogota''" and ?m2 = "textMsg ''57@s'' ''Soledad''"
  have h1: "\<not> fromMe ?m" by (simp add: textMsg_def)
  have h2: "awaitingConfirmation cityWorld (remoteJid ?m) = Some (AForm cityForm)"
    by (simp add: textMsg_def cityWorld_form)
  have h3: "stage cityForm = addressCity" by (simp add: cityForm_def)
  have h4: "calculate failingQuoteEnv (address cityForm) (barrio cityForm)
     (Some (trimOrEmpty (content ?m))) = None"
    by (simp add: failingQuoteEnv_def)
  have h5: "\<not> fromMe ?m2" by (simp add: textMsg_def)
  have h6: "remoteJid ?m2 = remoteJid ?m" by (simp add: textMsg_def)
  have h7: "calculate sampleEnv (address cityForm) (barrio cityForm)
     (Some (trimOrEmpty (content ?m2))) = Some \<lparr>costo = 5000, imagen = ''/images/map_1.png''\<rparr>"
    by (simp add: sampleEnv_def)
  have h8: "mapImageOk sampleEnv" by (simp add: sampleEnv_def)
  have h9: "\<forall>msg. sendOk sampleEnv (remoteJid ?m) msg" by (simp add: sampleEnv_def)
  have tr: "trimOrEmpty (content ?m2) = ''Soledad''"
    by (simp add: textMsg_def trimOrEmpty_def trim_def isWhiteSpace_def)
  have s: "remoteJid ?m = ''57@s''" by (simp add: textMsg_def)
  have cf: "barrio cityForm = Some ''Centro''" "address cityForm = Some ''Calle 1''"
    by (simp_all add: cityForm_def)
  note c = quote_failure_keeps_stage_and_fields[OF h1 h2 h3 h4 h5 h6 h7 h8 h9, unfolded Let_def s tr cf, simplified]
  from c have a: "\<exists>f'. awaitingConfirmation (snd (MessageHandler failingQuoteEnv ?m cityWorld)) ''57@s'' = Some (AForm f') \<and> stage f' = addressCity \<and>
              barrio f' = Some ''Centro'' \<and> address f' = Some ''Calle 1''"
    by blast
  from c have b: "\<exists>f'' summary. awaitingConfirmation (snd (MessageHandler sampleEnv ?m2 (snd (MessageHandler failingQuoteEnv ?m cityWorld)))) ''57@s'' = Some (AForm f'') \<and>
              stage f'' = finalConfirmation \<and> barrio f'' = Some ''Centro'' \<and>
              address f'' = Some ''Calle 1'' \<and> city f'' = Some ''Soledad'' \<and>
              deliveryCost f'' = Some 5000"
    by blast
  from h1 h2 h3 h4 h5 h6 h7 h8 h9 a b show ?thesis unfolding Let_def by (intro conjI)
qed

end
